theory Spec2Isabelle
  imports
    Complex_Main
    "HOL-Library.AList"
    "HOL-Library.Multiset"
    "HOL-Library.Char_ord"
    "HOL-Library.List_Lexorder"
begin

section \<open>BillMap: bill-key normalisation, metadata aggregation, identical-bill resolution\<close>

text \<open>
  The development embeds the data-shaping code of \<^verbatim>\<open>scripts/billdata.py\<close> and of
  \<^verbatim>\<open>server_py/flatgov/bills/views.py\<close>.  Python dictionaries read with \<^verbatim>\<open>.get\<close>
  become records whose fields are options (\<open>None\<close> is Python's \<^verbatim>\<open>None\<close>, also what
  \<^verbatim>\<open>.get\<close> returns for an absent key); the ordered dictionary \<^verbatim>\<open>billsMeta\<close> is an
  association list updated with \<open>AList.update\<close> (an existing key keeps its place, a new
  key goes to the end); every exception the code can raise is a value of \<open>py_error\<close>.
\<close>

subsection \<open>Exceptions\<close>

datatype py_error =
    AttributeError
  | TypeError
  | IndexError
  | ZeroDivisionError
  | StopIteration
  | DoesNotExist

subsection \<open>\<^verbatim>\<open>str.split(sep)\<close>\<close>

text \<open>
  \<^verbatim>\<open>s.split(sep)\<close> for a non-empty separator: the string is scanned from the left and cut
  at every occurrence of \<open>sep\<close>, occurrences not overlapping.  The source only calls it
  with the literals \<^verbatim>\<open>'-'\<close> and \<^verbatim>\<open>", "\<close>; with an empty separator (where Python raises
  \<^verbatim>\<open>ValueError\<close>) the function below does not cut at all.
\<close>

function split_py :: "string \<Rightarrow> string \<Rightarrow> string list" where
  "split_py sep [] = [[]]"
| "split_py sep (c # cs) =
     (if sep \<noteq> [] \<and> take (length sep) (c # cs) = sep
      then [] # split_py sep (drop (length sep) (c # cs))
      else (case split_py sep cs of
              [] \<Rightarrow> [[c]]
            | p # ps \<Rightarrow> (c # p) # ps))"
  by pat_completeness auto
termination
  by (relation "measure (\<lambda>(sep, s). length s)") auto

subsection \<open>The bill-key normaliser of the detail view\<close>

text \<open>
  \<^verbatim>\<open>
  def billIdToBillNumber(bill_id: str) -> str:
      return ''.join(reversed(bill_id.split('-')))
  \<close>
\<close>

definition billIdToBillNumber :: "string \<Rightarrow> string" where
  "billIdToBillNumber bill_id = concat (rev (split_py ''-'' bill_id))"

subsection \<open>The bill record of \<^verbatim>\<open>data.json\<close>\<close>

text \<open>A title entry: the keys \<^verbatim>\<open>title\<close>, \<^verbatim>\<open>is_for_portion\<close> (read for its truth value)
  and \<^verbatim>\<open>as\<close>.\<close>

record title_dict =
  title :: "string option"
  is_for_portion :: bool
  as_stage :: "string option"

text \<open>A cosponsor entry is a dictionary from field names to values; the aggregator only
  projects fields out of it, so the values stay abstract.\<close>

type_synonym 'v cosponsor_dict = "(string \<times> 'v) list"

text \<open>The loaded \<^verbatim>\<open>data.json\<close>.  \<open>titles\<close> and \<open>cosponsors\<close> are \<open>None\<close> when the key is
  absent or null.\<close>

record 'v bill_dict =
  bill_id :: "string option"
  bill_type :: "string option"
  titles :: "title_dict list option"
  cosponsors :: "'v cosponsor_dict list option"

subsection \<open>The bill-key normaliser of the batch script\<close>

text \<open>\<^verbatim>\<open>str(fileDict.get('bill_type'))\<close>\<close>

definition str_opt :: "string option \<Rightarrow> string" where
  "str_opt v = (case v of None \<Rightarrow> ''None'' | Some s \<Rightarrow> s)"

text \<open>
  \<^verbatim>\<open>
  def getBillCongressTypeNumber(fileDict: Dict):
    bill_id = fileDict.get('bill_id')
    if bill_id:
      bill_id_parts = bill_id.split('-')
      return bill_id_parts[1] + bill_id_parts[0]
    else:
      logging.error('No bill_id: ' + str(fileDict.get('bill_type')))
      return None
  \<close>
  The result is the returned value together with the lines written to the log, or the
  exception raised: \<^verbatim>\<open>bill_id_parts[1]\<close> raises \<^verbatim>\<open>IndexError\<close> when the identifier has no
  hyphen.
\<close>

definition truthy_str :: "string option \<Rightarrow> bool" where
  "truthy_str v = (case v of None \<Rightarrow> False | Some s \<Rightarrow> s \<noteq> [])"

definition getBillCongressTypeNumber ::
  "'v bill_dict \<Rightarrow> py_error + (string option \<times> string list)" where
  "getBillCongressTypeNumber fileDict =
     (case bill_id fileDict of
        None \<Rightarrow> Inr (None, [''No bill_id: '' @ str_opt (bill_type fileDict)])
      | Some b \<Rightarrow>
          if b \<noteq> [] then
            (let bill_id_parts = split_py ''-'' b in
             if length bill_id_parts < 2 then Inl IndexError
             else Inr (Some (bill_id_parts ! 1 @ bill_id_parts ! 0), []))
          else Inr (None, [''No bill_id: '' @ str_opt (bill_type fileDict)]))"

subsection \<open>Titles and cosponsors of a bill record\<close>

definition BILL_TYPES :: "(string \<times> string) list" where
  "BILL_TYPES = [(''ih'', ''introduced''), (''rh'', ''reported to house'')]"

text \<open>
  \<^verbatim>\<open>
  def getBillTitles(fileDict: Dict, include_partial = True, billType = 'all') -> list:
    titles = fileDict.get('titles')
    if not include_partial:
      titles = [title for title in titles if not title.get('is_for_portion')]
    if (billType != 'all') and BILL_TYPES.get(billType):
      titles = [title for title in titles if BILL_TYPES.get(billType) == title.get('as')]
    return titles
  \<close>
  Iterating over \<^verbatim>\<open>None\<close> raises \<^verbatim>\<open>TypeError\<close>; without a filter \<^verbatim>\<open>None\<close> is returned
  as it is.
\<close>

definition getBillTitles ::
  "'v bill_dict \<Rightarrow> bool \<Rightarrow> string \<Rightarrow> py_error + title_dict list option" where
  "getBillTitles fileDict include_partial billType =
     (let r1 = (if \<not> include_partial then
                  (case titles fileDict of
                     None \<Rightarrow> Inl TypeError
                   | Some ts \<Rightarrow> Inr (Some (filter (\<lambda>t. \<not> is_for_portion t) ts)))
                else Inr (titles fileDict))
      in case r1 of
           Inl e \<Rightarrow> Inl e
         | Inr ts1 \<Rightarrow>
             if billType \<noteq> ''all'' \<and> truthy_str (map_of BILL_TYPES billType) then
               (case ts1 of
                  None \<Rightarrow> Inl TypeError
                | Some ts \<Rightarrow>
                    Inr (Some (filter (\<lambda>t. map_of BILL_TYPES billType = as_stage t) ts)))
             else Inr ts1)"

text \<open>
  \<^verbatim>\<open>
  def getCosponsors(fileDict: Dict, includeFields = []) -> list:
    cosponsors = fileDict.get('cosponsors')
    if includeFields:
      cosponsors = list(map(lambda cosponsor:
          { field: cosponsor.get(field) for field in includeFields }, cosponsors))
    return cosponsors
  \<close>
  A projected cosponsor maps each requested field to the value found, or to \<^verbatim>\<open>None\<close>.
  Without a field list the entries are passed through (every value \<open>v\<close> shown as
  \<open>Some v\<close>).
\<close>

type_synonym 'v projected = "(string \<times> 'v option) list"

definition project_fields :: "string list \<Rightarrow> 'v cosponsor_dict \<Rightarrow> 'v projected" where
  "project_fields includeFields cosponsor =
     fold (\<lambda>field d. AList.update field (map_of cosponsor field) d) includeFields []"

definition getCosponsors ::
  "'v bill_dict \<Rightarrow> string list \<Rightarrow> py_error + 'v projected list option" where
  "getCosponsors fileDict includeFields =
     (if includeFields \<noteq> [] then
        (case cosponsors fileDict of
           None \<Rightarrow> Inl TypeError
         | Some cs \<Rightarrow> Inr (Some (map (project_fields includeFields) cs)))
      else Inr (map_option (map (map (\<lambda>(k, v). (k, Some v)))) (cosponsors fileDict)))"

subsection \<open>The metadata aggregator\<close>

text \<open>
  \<^verbatim>\<open>billsMeta\<close> maps a bill key to an entry, itself a dictionary with the fields
  \<^verbatim>\<open>titles\<close>, \<^verbatim>\<open>titles_whole_bill\<close> and \<^verbatim>\<open>cosponsors\<close> (and whatever else an entry
  loaded from an earlier artifact holds).
\<close>

datatype 'v meta_field =
    TitleList "string option list"
  | CosponsorList "'v projected list option"

type_synonym 'v meta_entry = "(string \<times> 'v meta_field) list"

type_synonym 'v bills_meta = "(string \<times> 'v meta_entry) list"

text \<open>The state the aggregation acts on: the dictionary, the lines logged, and the
  snapshots written by \<^verbatim>\<open>saveBillsMeta\<close>, oldest first (the artifact on disk is the last).\<close>

record 'v agg_state =
  billsMeta :: "'v bills_meta"
  logged :: "string list"
  saved :: "'v bills_meta list"

definition SAVE_ON_COUNT :: nat where
  "SAVE_ON_COUNT = 1000"

text \<open>\<^verbatim>\<open>saveBillsMeta\<close> dumps the whole dictionary, overwriting the artifact (and its
  compressed sibling).\<close>

definition saveBillsMeta :: "'v agg_state \<Rightarrow> 'v agg_state" where
  "saveBillsMeta st = st\<lparr>saved := saved st @ [billsMeta st]\<rparr>"

text \<open>
  \<^verbatim>\<open>
  def addToBillsMeta(dirName: str, fileName: str):
    billDict = loadJSON(os.path.join(dirName, fileName))
    billCongressTypeNumber = getBillCongressTypeNumber(billDict)
    if not billCongressTypeNumber:
      return
    if not billsMeta.get(billCongressTypeNumber):
      billsMeta[billCongressTypeNumber] = {}
    titles = getBillTitles(billDict)
    billsMeta[billCongressTypeNumber]['titles'] = [title.get('title') for title in titles]
    billsMeta[billCongressTypeNumber]['titles_whole_bill'] =
        [title.get('title') for title in titles if not title.get('is_for_portion')]
    billsMeta[billCongressTypeNumber]['cosponsors'] =
        getCosponsors(fileDict=billDict, includeFields=['name', 'bioguide_id'])
    billCount = len(billsMeta.keys())
    if billCount % SAVE_ON_COUNT == 0:
      saveBillsMeta(billsMeta)
  \<close>
  The function takes the loaded record.  \<open>e0\<close> is the entry the three assignments act
  on: the one already stored under the key, or the empty dictionary just created.  An
  exception leaves the function, and the run, at once.
\<close>

definition addToBillsMeta ::
  "'v agg_state \<Rightarrow> 'v bill_dict \<Rightarrow> py_error + 'v agg_state" where
  "addToBillsMeta st billDict =
     (case getBillCongressTypeNumber billDict of
        Inl e \<Rightarrow> Inl e
      | Inr (billCongressTypeNumber, msgs) \<Rightarrow>
          let st1 = st\<lparr>logged := logged st @ msgs\<rparr> in
          (case billCongressTypeNumber of
             None \<Rightarrow> Inr st1
           | Some k \<Rightarrow>
               if k = [] then Inr st1
               else
                 (let e0 = (case map_of (billsMeta st1) k of None \<Rightarrow> [] | Some e \<Rightarrow> e) in
                  case getBillTitles billDict True ''all'' of
                    Inl e \<Rightarrow> Inl e
                  | Inr None \<Rightarrow> Inl TypeError
                  | Inr (Some ts) \<Rightarrow>
                      let e1 = AList.update ''titles'' (TitleList (map title ts)) e0;
                          e2 = AList.update ''titles_whole_bill''
                                 (TitleList (map title (filter (\<lambda>t. \<not> is_for_portion t) ts))) e1
                      in (case getCosponsors billDict [''name'', ''bioguide_id''] of
                            Inl e \<Rightarrow> Inl e
                          | Inr cs \<Rightarrow>
                              let e3 = AList.update ''cosponsors'' (CosponsorList cs) e2;
                                  st2 = st1\<lparr>billsMeta := AList.update k e3 (billsMeta st1)\<rparr>;
                                  billCount = length (billsMeta st2)
                              in if billCount mod SAVE_ON_COUNT = 0
                                 then Inr (saveBillsMeta st2)
                                 else Inr st2))))"

text \<open>
  \<^verbatim>\<open>walkBillDirs\<close> calls \<^verbatim>\<open>processFile\<close> on every \<^verbatim>\<open>data.json\<close> of a bill directory, in
  the order of the directory walk.  The file system is outside the model: the corpus is
  the sequence of the loaded records in that order.
\<close>

fun walkBillDirs ::
  "('s \<Rightarrow> 'r \<Rightarrow> py_error + 's) \<Rightarrow> 's \<Rightarrow> 'r list \<Rightarrow> py_error + 's" where
  "walkBillDirs processFile st [] = Inr st"
| "walkBillDirs processFile st (d # ds) =
     (case processFile st d of
        Inl e \<Rightarrow> Inl e
      | Inr st' \<Rightarrow> walkBillDirs processFile st' ds)"

text \<open>
  \<^verbatim>\<open>
  def updateBillsMeta(billsMeta= {}, congress= ''):
    def addToBillsMeta(dirName: str, fileName: str): ...
    walkBillDirs(processFile=addToBillsMeta)
    saveBillsMeta(billsMeta)
    return billsMeta
  \<close>
\<close>

definition updateBillsMeta ::
  "'v agg_state \<Rightarrow> 'v bill_dict list \<Rightarrow> py_error + 'v agg_state" where
  "updateBillsMeta st corpus =
     (case walkBillDirs addToBillsMeta st corpus of
        Inl e \<Rightarrow> Inl e
      | Inr st' \<Rightarrow> Inr (saveBillsMeta st'))"

text \<open>The dictionary an association list stands for, at both levels: two lists with
  the same \<open>dict_of\<close> are equal as Python dictionaries, key for key and value for value.\<close>

definition dict_of ::
  "'v bills_meta \<Rightarrow> string \<Rightarrow> (string \<Rightarrow> 'v meta_field option) option" where
  "dict_of m k = map_option map_of (map_of m k)"

section \<open>The detail view: \<^verbatim>\<open>server_py/flatgov/bills/views.py\<close>\<close>

subsection \<open>Data read by the view\<close>

text \<open>
  An entry of \<^verbatim>\<open>self.object.get_similar_bills\<close>, the similarity matches supplied by the
  search backend.  Every field is read with \<^verbatim>\<open>.get\<close>; \<open>None\<close> stands for an absent key.
  Scores are Python floats; they are modelled by the real numbers they denote, so the
  rounding of floating-point subtraction and division is not part of the model.
\<close>

record similar_bill =
  bill_congress_type_number :: "string option"
  score :: "real option"
  reason :: "string option"

text \<open>A value that Python code inspects with \<^verbatim>\<open>type(...) == int\<close>.\<close>

datatype py_value = PyInt int | PyStr string | PyNone

text \<open>
  An entry of the bill's \<^verbatim>\<open>committees_dict\<close> (keys \<^verbatim>\<open>committee\<close>, the committee's name,
  and \<^verbatim>\<open>committee_id\<close>), and an entry of a cosponsor's \<^verbatim>\<open>committees\<close> (keys
  \<^verbatim>\<open>committee\<close>, here a committee identifier, \<^verbatim>\<open>rank\<close> and \<^verbatim>\<open>bioguide\<close>).
\<close>

record bill_committee =
  committee :: "string option"
  committee_id :: "string option"

record assignment =
  assigned_committee :: "string option"
  assigned_rank :: "py_value option"
  bioguide :: "string option"

text \<open>
  An entry of the bill's \<^verbatim>\<open>cosponsors_dict\<close>, also the shape of its \<^verbatim>\<open>sponsor\<close>: the keys
  \<^verbatim>\<open>name\<close>, \<^verbatim>\<open>bioguide_id\<close>, \<^verbatim>\<open>original_cosponsor\<close> (read for its truth value), and the
  keys the view adds: \<^verbatim>\<open>rank\<close> (\<open>PyNone\<close> when absent), \<^verbatim>\<open>committee_id\<close>,
  \<^verbatim>\<open>committee_name\<close>, \<^verbatim>\<open>party\<close>, \<^verbatim>\<open>name_full_official\<close>, \<^verbatim>\<open>current\<close> and \<^verbatim>\<open>sponsor\<close>.
\<close>

record cosponsor_entry =
  name :: "string option"
  entry_bioguide_id :: "string option"
  original_cosponsor :: bool
  rank :: py_value
  entry_committee_id :: "string option"
  committee_name :: "string option"
  entry_party :: "string option"
  entry_name_full_official :: "string option"
  current :: "bool option"
  sponsor_flag :: bool

text \<open>The \<^verbatim>\<open>Bill\<close> instance \<^verbatim>\<open>self.object\<close>, and the view with the attribute it caches.\<close>

record bill_object =
  object_number :: string
  get_similar_bills :: "similar_bill list"
  committees_dict :: "bill_committee list"
  cosponsors_dict :: "cosponsor_entry list"
  sponsor :: cosponsor_entry

record bill_detail_view =
  object :: bill_object
  identical_bill_numbers :: "string list"

subsection \<open>Identical bills\<close>

definition SIMILARITY_THRESHOLD :: real where
  "SIMILARITY_THRESHOLD = 0.1"

definition IDENTICAL_REASONS :: "string list" where
  "IDENTICAL_REASONS = [''identical'', ''nearly identical'', ''title match (main)'']"

text \<open>\<^verbatim>\<open>bill.get('bill_congress_type_number', '')\<close>\<close>

definition key_or_empty :: "similar_bill \<Rightarrow> string" where
  "key_or_empty bill = (case bill_congress_type_number bill of None \<Rightarrow> [] | Some k \<Rightarrow> k)"

text \<open>
  \<^verbatim>\<open>
  def get_billnumbers_similar(self):
      return [bill.get('bill_congress_type_number', '')
              for bill in self.object.get_similar_bills]
  \<close>
\<close>

definition get_billnumbers_similar :: "bill_object \<Rightarrow> string list" where
  "get_billnumbers_similar obj = map key_or_empty (get_similar_bills obj)"

text \<open>
  \<^verbatim>\<open>
  def get_current_bill_score(self):
      if self.object.bill_congress_type_number in self.get_billnumbers_similar():
          current_bill = next(filter(
              lambda bill: bill.get('bill_congress_type_number')
                           == self.object.bill_congress_type_number,
              self.object.get_similar_bills))
          current_bill_score = current_bill.get('score')
      else:
          current_bill_score = 0
      return current_bill_score
  \<close>
  \<^verbatim>\<open>next\<close> raises \<^verbatim>\<open>StopIteration\<close> on an exhausted iterator.  The value returned is
  \<open>None\<close> when the matching entry has no score.
\<close>

definition get_current_bill_score :: "bill_object \<Rightarrow> py_error + real option" where
  "get_current_bill_score obj =
     (if object_number obj \<in> set (get_billnumbers_similar obj) then
        (case find (\<lambda>bill. bill_congress_type_number bill = Some (object_number obj))
                (get_similar_bills obj) of
           None \<Rightarrow> Inl StopIteration
         | Some current_bill \<Rightarrow> Inr (score current_bill))
      else Inr (Some 0))"

text \<open>Division of floats: \<^verbatim>\<open>a / b\<close> raises \<^verbatim>\<open>ZeroDivisionError\<close> when \<open>b\<close> is zero.\<close>

definition py_div :: "real \<Rightarrow> real \<Rightarrow> py_error + real" where
  "py_div a b = (if b = 0 then Inl ZeroDivisionError else Inr (a / b))"

text \<open>
  The condition of the comprehension in \<^verbatim>\<open>get_identical_bill_numbers\<close>, in its two
  operands.  \<^verbatim>\<open>cleanReasons\<close> is imported from \<^verbatim>\<open>bills.models\<close>, which is not part of the
  sources at hand: it is a parameter here, a function from reason lists to reason lists.
  \<^verbatim>\<open>
  any(x in cleanReasons(bill.get('reason').split(", ")) for x in IDENTICAL_REASONS)
  \<close>
  raises \<^verbatim>\<open>AttributeError\<close> when the entry has no reason.
\<close>

definition reason_is_identical ::
  "(string list \<Rightarrow> string list) \<Rightarrow> similar_bill \<Rightarrow> py_error + bool" where
  "reason_is_identical cleanReasons bill =
     (case reason bill of
        None \<Rightarrow> Inl AttributeError
      | Some r \<Rightarrow>
          Inr (list_ex (\<lambda>x. x \<in> set (cleanReasons (split_py '', '' r))) IDENTICAL_REASONS))"

text \<open>
  \<^verbatim>\<open>
  current_bill_score > 0
    and (abs(bill.get('score') - current_bill_score) / current_bill_score
         < SIMILARITY_THRESHOLD)
  \<close>
  Comparing or subtracting \<^verbatim>\<open>None\<close> raises \<^verbatim>\<open>TypeError\<close>; \<^verbatim>\<open>and\<close> evaluates its second
  operand only when the first is true.
\<close>

definition score_is_close :: "real option \<Rightarrow> similar_bill \<Rightarrow> py_error + bool" where
  "score_is_close current_bill_score bill =
     (case current_bill_score of
        None \<Rightarrow> Inl TypeError
      | Some c \<Rightarrow>
          if c > 0 then
            (case score bill of
               None \<Rightarrow> Inl TypeError
             | Some s \<Rightarrow>
                 (case py_div \<bar>s - c\<bar> c of
                    Inl e \<Rightarrow> Inl e
                  | Inr q \<Rightarrow> Inr (q < SIMILARITY_THRESHOLD)))
          else Inr False)"

text \<open>\<^verbatim>\<open>or\<close> evaluates its second operand only when the first is false.\<close>

definition is_identical ::
  "(string list \<Rightarrow> string list) \<Rightarrow> real option \<Rightarrow> similar_bill \<Rightarrow> py_error + bool" where
  "is_identical cleanReasons current_bill_score bill =
     (case reason_is_identical cleanReasons bill of
        Inl e \<Rightarrow> Inl e
      | Inr True \<Rightarrow> Inr True
      | Inr False \<Rightarrow> score_is_close current_bill_score bill)"

text \<open>
  The inner comprehension
  \<^verbatim>\<open>
  [bill.get('bill_congress_type_number', '')
     for bill in self.object.get_similar_bills if (... or ...)]
  \<close>
  evaluates the condition entry by entry; the first exception ends it.
\<close>

fun identical_candidates ::
  "(string list \<Rightarrow> string list) \<Rightarrow> real option \<Rightarrow> similar_bill list
     \<Rightarrow> py_error + string list" where
  "identical_candidates cleanReasons current_bill_score [] = Inr []"
| "identical_candidates cleanReasons current_bill_score (bill # bills) =
     (case is_identical cleanReasons current_bill_score bill of
        Inl e \<Rightarrow> Inl e
      | Inr keep \<Rightarrow>
          (case identical_candidates cleanReasons current_bill_score bills of
             Inl e \<Rightarrow> Inl e
           | Inr ks \<Rightarrow> Inr (if keep then key_or_empty bill # ks else ks)))"

text \<open>
  \<^verbatim>\<open>
  def get_identical_bill_numbers(self):
      current_bill_score = self.get_current_bill_score()
      identical_bill_numbers = [billnumber for billnumber in [...] if billnumber]
      self.identical_bill_numbers = identical_bill_numbers
      sort_bills_for_congress(identical_bill_numbers)
      return identical_bill_numbers
  \<close>
  \<^verbatim>\<open>sort_bills_for_congress\<close> is imported from \<^verbatim>\<open>bills.utils\<close>, not part of the sources at
  hand, and its result is discarded: the parameter \<open>sort_bills_for_congress\<close> is what
  the call does to the list it is given (the identity if it does not sort in place).
  The attribute and the returned value are the same list object.
\<close>

definition get_identical_bill_numbers ::
  "(string list \<Rightarrow> string list) \<Rightarrow> (string list \<Rightarrow> string list) \<Rightarrow> bill_detail_view
     \<Rightarrow> py_error + (string list \<times> bill_detail_view)" where
  "get_identical_bill_numbers cleanReasons sort_bills_for_congress self =
     (case get_current_bill_score (object self) of
        Inl e \<Rightarrow> Inl e
      | Inr current_bill_score \<Rightarrow>
          (case identical_candidates cleanReasons current_bill_score
                  (get_similar_bills (object self)) of
             Inl e \<Rightarrow> Inl e
           | Inr ks \<Rightarrow>
               let identical = sort_bills_for_congress (filter (\<lambda>billnumber. billnumber \<noteq> []) ks)
               in Inr (identical, self\<lparr>identical_bill_numbers := identical\<rparr>)))"

subsection \<open>Committees of the bill\<close>

text \<open>
  \<^verbatim>\<open>
  def get_committees_dict_deduped(self, **kwargs):
      committees_dict = self.object.committees_dict
      if not committees_dict:
          return []
      deduped = []
      seen = []
      for committeeItem in committees_dict:
          k = committeeItem.get('committee', '')
          if not k or k in seen:
              continue
          seen.append(k)
          deduped.append(committeeItem)
      return deduped
  \<close>
\<close>

fun dedupe_committees :: "string list \<Rightarrow> bill_committee list \<Rightarrow> bill_committee list" where
  "dedupe_committees seen [] = []"
| "dedupe_committees seen (committeeItem # rest) =
     (let k = (case committee committeeItem of None \<Rightarrow> [] | Some n \<Rightarrow> n) in
      if k = [] \<or> k \<in> set seen then dedupe_committees seen rest
      else committeeItem # dedupe_committees (seen @ [k]) rest)"

definition get_committees_dict_deduped :: "bill_object \<Rightarrow> bill_committee list" where
  "get_committees_dict_deduped obj =
     (if committees_dict obj = [] then [] else dedupe_committees [] (committees_dict obj))"

text \<open>
  \<^verbatim>\<open>
  def get_committees_map(self, **kwargs):
      deduped = self.get_committees_dict_deduped()
      return {committee.get('committee_id'): committee.get('committee')
              for committee in deduped}
  \<close>
\<close>

definition get_committees_map :: "bill_object \<Rightarrow> (string option \<times> string option) list" where
  "get_committees_map obj =
     fold (\<lambda>c m. AList.update (committee_id c) (committee c) m)
       (get_committees_dict_deduped obj) []"

subsection \<open>The merged cosponsor roster\<close>

text \<open>
  A row of \<^verbatim>\<open>Cosponsor.objects.filter(bill__in=billids).values("bioguide_id",
  "name_full_official", "party", "state", "leadership", "committees", "bill")\<close>.  The
  merged entry is the row with three more keys.
\<close>

record 'l cosponsor_row =
  bioguide_id :: "string option"
  name_full_official :: "string option"
  party :: "string option"
  state :: "string option"
  leadership :: 'l
  committees :: "assignment list"
  row_bill :: nat

record 'l merged_cosponsor = "'l cosponsor_row" +
  bill_congress_type_numbers :: "string list"
  committees_named :: "string option list"
  ranks :: "py_value list"

text \<open>
  The \<^verbatim>\<open>Cosponsor\<close> instance that \<^verbatim>\<open>Cosponsor.objects.get\<close> returns, and the database as
  the view queries it: the primary key of the bill with a given number (\<open>None\<close>:
  \<^verbatim>\<open>Bill.objects.get\<close> raises), the cosponsor rows of a list of bills in fetch order, and
  the cosponsor with a given identifier (\<open>None\<close>: \<^verbatim>\<open>Cosponsor.objects.get\<close> raises).
\<close>

record cosponsor_item =
  item_party :: "string option"
  item_name_full_official :: "string option"
  item_committees :: "assignment list"

record 'l database =
  bill_pk :: "string \<Rightarrow> nat option"
  cosponsors_for_bills :: "nat list \<Rightarrow> 'l cosponsor_row list"
  cosponsor_by_bioguide :: "string \<Rightarrow> cosponsor_item option"

text \<open>\<^verbatim>\<open>bctn = bill_dict.get(cosponsor.get('bill', ''), '')\<close>\<close>

definition bctn_of :: "(nat \<times> string) list \<Rightarrow> 'l cosponsor_row \<Rightarrow> string" where
  "bctn_of bill_dict cosponsor =
     (case map_of bill_dict (row_bill cosponsor) of None \<Rightarrow> [] | Some billnumber \<Rightarrow> billnumber)"

text \<open>
  The \<^verbatim>\<open>else\<close> branch of the loop: the first row of a \<^verbatim>\<open>bioguide_id\<close>.
  \<^verbatim>\<open>
  cosponsor['bill_congress_type_numbers'] = [bctn]
  committees_relevant = [committeeItem
      for committeeItem in cosponsor.get('committees', [])
      if committeeItem.get('committee') in committees_map.keys()]
  cosponsor['committees_named'] = [
      committees_map.get(committeeItem.get('committee'), '')
      for committeeItem in committees_relevant]
  cosponsor['ranks'] = [committeeItem.get('rank', '')
      for committeeItem in committees_relevant]
  \<close>
\<close>

definition first_occurrence ::
  "(string option \<times> string option) list \<Rightarrow> string \<Rightarrow> 'l cosponsor_row
     \<Rightarrow> 'l merged_cosponsor" where
  "first_occurrence committees_map bctn cosponsor =
     (let committees_relevant =
            filter (\<lambda>committeeItem. assigned_committee committeeItem \<in> set (map fst committees_map))
              (committees cosponsor)
      in cosponsor_row.extend cosponsor
           (merged_cosponsor.fields [bctn]
              (map (\<lambda>committeeItem.
                      case map_of committees_map (assigned_committee committeeItem) of
                        None \<Rightarrow> Some [] | Some n \<Rightarrow> n)
                 committees_relevant)
              (map (\<lambda>committeeItem.
                      case assigned_rank committeeItem of None \<Rightarrow> PyStr [] | Some v \<Rightarrow> v)
                 committees_relevant)))"

text \<open>
  One iteration of
  \<^verbatim>\<open>
  for cosponsor in cosponsors_for_bills:
      bctn = bill_dict.get(cosponsor.get('bill', ''), '')
      bioguide_id = cosponsor.get('bioguide_id')
      if cosponsors_deduped.get(bioguide_id):
          cosponsors_deduped[bioguide_id]['bill_congress_type_numbers'].append(bctn)
      else:
          ...
          cosponsors_deduped[bioguide_id] = cosponsor
  \<close>
  A stored entry is a non-empty dictionary, so the test holds exactly when the key is
  present.
\<close>

definition merge_step ::
  "(string option \<times> string option) list \<Rightarrow> (nat \<times> string) list \<Rightarrow> 'l cosponsor_row
     \<Rightarrow> (string option \<times> 'l merged_cosponsor) list
     \<Rightarrow> (string option \<times> 'l merged_cosponsor) list" where
  "merge_step committees_map bill_dict cosponsor cosponsors_deduped =
     (let bctn = bctn_of bill_dict cosponsor;
          bid = bioguide_id cosponsor
      in case map_of cosponsors_deduped bid of
           Some e \<Rightarrow>
             AList.update bid
               (e\<lparr>bill_congress_type_numbers := bill_congress_type_numbers e @ [bctn]\<rparr>)
               cosponsors_deduped
         | None \<Rightarrow>
             AList.update bid (first_occurrence committees_map bctn cosponsor)
               cosponsors_deduped)"

text \<open>
  \<^verbatim>\<open>
  def get_cosponsors_for_same_bills(self):
      committees_map = self.get_committees_map()
      billnumbers = self.identical_bill_numbers
      if self.object.bill_congress_type_number not in billnumbers:
          billnumbers = [self.object.bill_congress_type_number, *billnumbers]
      billids = [Bill.objects.get(bill_congress_type_number=billnumber).id
                 for billnumber in billnumbers]
      bill_dict = {billid: billnumbers[i] for i, billid in enumerate(billids)}
      cosponsors_for_bills = Cosponsor.objects.filter(bill__in=billids).values(...)
      cosponsors_deduped = {}
      for cosponsor in cosponsors_for_bills: ...
      return list(cosponsors_deduped.values())
  \<close>
\<close>

definition roster_billnumbers :: "bill_detail_view \<Rightarrow> string list" where
  "roster_billnumbers self =
     (if object_number (object self) \<notin> set (identical_bill_numbers self)
      then object_number (object self) # identical_bill_numbers self
      else identical_bill_numbers self)"

definition get_cosponsors_for_same_bills ::
  "'l database \<Rightarrow> bill_detail_view \<Rightarrow> py_error + 'l merged_cosponsor list" where
  "get_cosponsors_for_same_bills db self =
     (let committees_map = get_committees_map (object self);
          billnumbers = roster_billnumbers self
      in case those (map (bill_pk db) billnumbers) of
           None \<Rightarrow> Inl DoesNotExist
         | Some billids \<Rightarrow>
             let bill_dict = fold (\<lambda>(billid, billnumber) d. AList.update billid billnumber d)
                               (zip billids billnumbers) [];
                 cosponsors_for_bills = cosponsors_for_bills db billids
             in Inr (map snd
                       (fold (merge_step committees_map bill_dict) cosponsors_for_bills [])))"

subsection \<open>The order in which cosponsors are displayed\<close>

text \<open>\<^verbatim>\<open>cosponsor.get('name', '')\<close>\<close>

definition name_or_empty :: "cosponsor_entry \<Rightarrow> string" where
  "name_or_empty c = (case name c of None \<Rightarrow> [] | Some n \<Rightarrow> n)"

text \<open>
  \<^verbatim>\<open>sorted(cosponsors, key=lambda i: i.get('name'))\<close>: a stable sort by name, strings
  compared character by character.  Sorting two or more entries compares every key with
  another one, and comparing \<^verbatim>\<open>None\<close> raises \<^verbatim>\<open>TypeError\<close>.
\<close>

definition sorted_by_name :: "cosponsor_entry list \<Rightarrow> py_error + cosponsor_entry list" where
  "sorted_by_name cs =
     (if 2 \<le> length cs \<and> list_ex (\<lambda>c. name c = None) cs then Inl TypeError
      else Inr (sort_key name_or_empty cs))"

text \<open>
  The inner loop of the enrichment, for one committee assignment of the cosponsor:
  \<^verbatim>\<open>
  committee_id = committee.get('committee')
  for committee_dict in self.object.committees_dict:
      if committee_id == committee_dict.get('committee_id'):
          cosponsor['committee_id'] = committee_id
          cosponsor['rank'] = committee.get('rank')
          cosponsor['committee_name'] = committee_dict.get('committee')
  \<close>
\<close>

definition match_committees ::
  "bill_committee list \<Rightarrow> assignment \<Rightarrow> cosponsor_entry \<Rightarrow> cosponsor_entry" where
  "match_committees cds a c =
     fold (\<lambda>committee_dict c'.
             if assigned_committee a = committee_id committee_dict
             then c'\<lparr>rank := (case assigned_rank a of None \<Rightarrow> PyNone | Some v \<Rightarrow> v),
                     entry_committee_id := assigned_committee a,
                     committee_name := committee committee_dict\<rparr>
             else c')
       cds c"

text \<open>
  The body of the first loop, for one entry:
  \<^verbatim>\<open>
  bioguide_id = cosponsor.get("bioguide_id", "")
  if bioguide_id:
      try:
          cosponsor_item = Cosponsor.objects.get(bioguide_id=bioguide_id)
          if cosponsor_item: cosponsor["current"] = True
          else: cosponsor["current"] = False
      except Exception:
          cosponsor["current"] = False
          continue
      cosponsor['party'] = cosponsor_item.party
      cosponsor['name_full_official'] = cosponsor_item.name_full_official
      for committee in cosponsor_item.committees:
          if bioguide_id == committee.get('bioguide'):
              ...
  \<close>
  A model instance is true.
\<close>

definition enrich :: "'l database \<Rightarrow> bill_committee list \<Rightarrow> cosponsor_entry \<Rightarrow> cosponsor_entry" where
  "enrich db cds c =
     (case entry_bioguide_id c of
        None \<Rightarrow> c
      | Some b \<Rightarrow>
          if b = [] then c
          else (case cosponsor_by_bioguide db b of
                  None \<Rightarrow> c\<lparr>current := Some False\<rparr>
                | Some cosponsor_item \<Rightarrow>
                    fold (\<lambda>a c'. if Some b = bioguide a then match_committees cds a c' else c')
                      (item_committees cosponsor_item)
                      (c\<lparr>entry_party := item_party cosponsor_item,
                         entry_name_full_official := item_name_full_official cosponsor_item,
                         current := Some True\<rparr>)))"

text \<open>\<^verbatim>\<open>type(cosponsor.get('rank')) == int\<close>, and the sort key \<^verbatim>\<open>i.get('rank')\<close> of the
  entries that pass this test.\<close>

definition has_int_rank :: "cosponsor_entry \<Rightarrow> bool" where
  "has_int_rank c = (case rank c of PyInt n \<Rightarrow> True | _ \<Rightarrow> False)"

definition int_rank :: "cosponsor_entry \<Rightarrow> int" where
  "int_rank c = (case rank c of PyInt n \<Rightarrow> n | _ \<Rightarrow> 0)"

text \<open>
  \<^verbatim>\<open>
  def get_cosponsors_dict(self):
      cosponsors = self.object.cosponsors_dict
      cosponsors = sorted(cosponsors, key=lambda i: i.get('name'))
      sponsor = self.object.sponsor
      sponsor['sponsor'] = True
      sponsor_name = sponsor.get('name', '')
      if sponsor_name:
          sponsors = []
          try:
              sponsors = list(filter(
                  lambda cosponsor: cosponsor.get('name', '') == sponsor_name, cosponsors))
          except Exception:
              pass
          if sponsors:
              cosponsors.remove(sponsors[0])
              cosponsors.insert(0, sponsors[0])
          else:
              cosponsors.insert(0, sponsor)
      for i, cosponsor in enumerate(cosponsors): ...
      for cosponsor in cosponsors[1:]:
          if cosponsor.get('original_cosponsor'): original_cosponsors.append(cosponsor)
          else: unoriginal_cosponsors.append(cosponsor)
      (each of the two lists is split by type(rank) == int, the ranked part sorted by rank)
      return cosponsors[:1] + sorted_original_ranked_cosponsors
             + original_unranked_cosponsors + sorted_unoriginal_ranked_cosponsors
             + unoriginal_unranked_cosponsors
  \<close>
\<close>

definition get_cosponsors_dict :: "'l database \<Rightarrow> bill_object \<Rightarrow> py_error + cosponsor_entry list" where
  "get_cosponsors_dict db obj =
     (case sorted_by_name (cosponsors_dict obj) of
        Inl e \<Rightarrow> Inl e
      | Inr sorted_cosponsors \<Rightarrow>
          let the_sponsor = (sponsor obj)\<lparr>sponsor_flag := True\<rparr>;
              sponsor_name = name_or_empty the_sponsor;
              with_head =
                (if sponsor_name \<noteq> [] then
                   (case filter (\<lambda>c. name_or_empty c = sponsor_name) sorted_cosponsors of
                      [] \<Rightarrow> the_sponsor # sorted_cosponsors
                    | s # _ \<Rightarrow> s # remove1 s sorted_cosponsors)
                 else sorted_cosponsors);
              cosponsors = map (enrich db (committees_dict obj)) with_head;
              original_cosponsors = filter original_cosponsor (drop 1 cosponsors);
              unoriginal_cosponsors = filter (\<lambda>c. \<not> original_cosponsor c) (drop 1 cosponsors)
          in Inr (take 1 cosponsors
                  @ sort_key int_rank (filter has_int_rank original_cosponsors)
                  @ filter (\<lambda>c. \<not> has_int_rank c) original_cosponsors
                  @ sort_key int_rank (filter has_int_rank unoriginal_cosponsors)
                  @ filter (\<lambda>c. \<not> has_int_rank c) unoriginal_cosponsors))"

section \<open>Notions used to state and prove the properties\<close>

subsection \<open>The aggregation, record by record\<close>

text \<open>
  What one record does to the aggregation depends on the record alone: it raises, it is
  skipped (with the lines it logs), or it writes the three fields of the entry under its
  key.  \<open>contribution\<close> computes this from the record; \<open>addToBillsMeta_contribution\<close>
  below shows that \<open>addToBillsMeta\<close> does exactly that.
\<close>

datatype 'v contribution =
    Raises py_error
  | Skipped "string list"
  | Writes string "string option list" "string option list" "'v projected list option"

definition contribution :: "'v bill_dict \<Rightarrow> 'v contribution" where
  "contribution r =
     (case getBillCongressTypeNumber r of
        Inl e \<Rightarrow> Raises e
      | Inr (ko, msgs) \<Rightarrow>
          (case ko of
             None \<Rightarrow> Skipped msgs
           | Some k \<Rightarrow>
               if k = [] then Skipped msgs
               else (case titles r of
                       None \<Rightarrow> Raises TypeError
                     | Some ts \<Rightarrow>
                         (case cosponsors r of
                            None \<Rightarrow> Raises TypeError
                          | Some cs \<Rightarrow>
                              Writes k (map title ts)
                                (map title (filter (\<lambda>t. \<not> is_for_portion t) ts))
                                (Some (map (project_fields [''name'', ''bioguide_id'']) cs))))))"

text \<open>The three assignments to an entry, the entry a record starts from, and the
  conditional save that ends \<^verbatim>\<open>addToBillsMeta\<close>.\<close>

definition set_fields ::
  "string option list \<Rightarrow> string option list \<Rightarrow> 'v projected list option
     \<Rightarrow> 'v meta_entry \<Rightarrow> 'v meta_entry" where
  "set_fields T W C e0 =
     AList.update ''cosponsors'' (CosponsorList C)
       (AList.update ''titles_whole_bill'' (TitleList W)
          (AList.update ''titles'' (TitleList T) e0))"

definition entry_or_empty :: "'v bills_meta \<Rightarrow> string \<Rightarrow> 'v meta_entry" where
  "entry_or_empty m k = (case map_of m k of None \<Rightarrow> [] | Some e \<Rightarrow> e)"

definition checkpoint_if_due :: "'v agg_state \<Rightarrow> 'v agg_state" where
  "checkpoint_if_due st =
     (if length (billsMeta st) mod SAVE_ON_COUNT = 0 then saveBillsMeta st else st)"

text \<open>The key under which a record is stored: none when the normaliser raises or
  returns \<^verbatim>\<open>None\<close> or the empty string.\<close>

definition resolved_key :: "'v bill_dict \<Rightarrow> string option" where
  "resolved_key r =
     (case getBillCongressTypeNumber r of
        Inr (Some k, msgs) \<Rightarrow> if k = [] then None else Some k
      | _ \<Rightarrow> None)"

text \<open>Two states with the same dictionary and the same snapshots; the log may differ.\<close>

definition same_data :: "'v agg_state \<Rightarrow> 'v agg_state \<Rightarrow> bool" where
  "same_data s t \<longleftrightarrow> billsMeta s = billsMeta t \<and> saved s = saved t"

text \<open>The effect of a record on the dictionary that \<open>dict_of\<close> reads off, and the
  last values written under a key by a sequence of records.\<close>

type_synonym 'v meta_dict = "string \<Rightarrow> (string \<Rightarrow> 'v meta_field option) option"

definition write_fields ::
  "string option list \<Rightarrow> string option list \<Rightarrow> 'v projected list option
     \<Rightarrow> (string \<Rightarrow> 'v meta_field option) \<Rightarrow> (string \<Rightarrow> 'v meta_field option)" where
  "write_fields T W C e =
     e(''titles'' \<mapsto> TitleList T, ''titles_whole_bill'' \<mapsto> TitleList W,
       ''cosponsors'' \<mapsto> CosponsorList C)"

definition entry_dict :: "'v meta_dict \<Rightarrow> string \<Rightarrow> (string \<Rightarrow> 'v meta_field option)" where
  "entry_dict D k = (case D k of None \<Rightarrow> Map.empty | Some e \<Rightarrow> e)"

definition dict_step :: "'v contribution \<Rightarrow> 'v meta_dict \<Rightarrow> 'v meta_dict" where
  "dict_step c D =
     (case c of
        Writes k T W C \<Rightarrow> D(k \<mapsto> write_fields T W C (entry_dict D k))
      | _ \<Rightarrow> D)"

fun last_write ::
  "'v contribution list \<Rightarrow> string
     \<Rightarrow> (string option list \<times> string option list \<times> 'v projected list option) option" where
  "last_write [] k = None"
| "last_write (c # cs) k =
     (case last_write cs k of
        Some x \<Rightarrow> Some x
      | None \<Rightarrow> (case c of
                   Writes k' T W C \<Rightarrow> if k' = k then Some (T, W, C) else None
                 | _ \<Rightarrow> None))"

text \<open>The line \<^verbatim>\<open>getBillCongressTypeNumber\<close> logs.\<close>

definition no_bill_id_message :: "'v bill_dict \<Rightarrow> string" where
  "no_bill_id_message r = ''No bill_id: '' @ str_opt (bill_type r)"

subsection \<open>Concrete inputs\<close>

text \<open>A dictionary with the 1000 keys \<^verbatim>\<open>116hr1\<close>, \<^verbatim>\<open>116hr11\<close>, \<^verbatim>\<open>116hr111\<close>, ..., each with
  an empty entry; a record for \<^verbatim>\<open>hr1-116\<close>; and the dictionary after that record.\<close>

definition thousand_keys :: "string list" where
  "thousand_keys = map (\<lambda>n. ''116hr'' @ replicate (Suc n) CHR ''1'') [0..<1000]"

definition thousand_state :: "unit agg_state" where
  "thousand_state =
     \<lparr>billsMeta = map (\<lambda>k. (k, [])) thousand_keys, logged = [], saved = []\<rparr>"

definition rerun_record :: "unit bill_dict" where
  "rerun_record =
     \<lparr>bill_id = Some ''hr1-116'', bill_type = Some ''hr'', titles = Some [],
      cosponsors = Some []\<rparr>"

definition thousand_meta_after :: "unit bills_meta" where
  "thousand_meta_after =
     AList.update ''116hr1''
       [(''titles'', TitleList []), (''titles_whole_bill'', TitleList []),
        (''cosponsors'', CosponsorList (Some []))]
       (billsMeta thousand_state)"

subsection \<open>Identical bills, in the words of the specification\<close>

text \<open>
  A match is identical when its reason list, split at \<^verbatim>\<open>", "\<close> and cleaned, meets the
  vocabulary \<open>IDENTICAL_REASONS\<close>, or when the current score is positive and the
  match's score lies within the relative threshold of it.
\<close>

definition reasons_intersect :: "(string list \<Rightarrow> string list) \<Rightarrow> string \<Rightarrow> bool" where
  "reasons_intersect cleanReasons r \<longleftrightarrow>
     set (cleanReasons (split_py '', '' r)) \<inter> set IDENTICAL_REASONS \<noteq> {}"

definition reason_by_spec :: "(string list \<Rightarrow> string list) \<Rightarrow> similar_bill \<Rightarrow> bool" where
  "reason_by_spec cleanReasons bill =
     (case reason bill of None \<Rightarrow> False | Some r \<Rightarrow> reasons_intersect cleanReasons r)"

definition proximity_by_spec :: "real \<Rightarrow> similar_bill \<Rightarrow> bool" where
  "proximity_by_spec currentScore bill =
     (case score bill of
        None \<Rightarrow> False
      | Some s \<Rightarrow> currentScore > 0 \<and> \<bar>s - currentScore\<bar> / currentScore < 0.1)"

definition identical_by_spec ::
  "(string list \<Rightarrow> string list) \<Rightarrow> real \<Rightarrow> similar_bill \<Rightarrow> bool" where
  "identical_by_spec cleanReasons currentScore bill \<longleftrightarrow>
     reason_by_spec cleanReasons bill \<or> proximity_by_spec currentScore bill"

text \<open>Four matches, one of them without a bill key, and a view of bill \<^verbatim>\<open>116hr299\<close>
  that has them as its similar bills.\<close>

definition example_matches :: "similar_bill list" where
  "example_matches =
     [\<lparr>bill_congress_type_number = Some ''116hr299'', score = Some 0.90,
       reason = Some ''bill text''\<rparr>,
      \<lparr>bill_congress_type_number = Some ''116hr300'', score = Some 0.95,
       reason = Some ''identical''\<rparr>,
      \<lparr>bill_congress_type_number = Some ''116hr301'', score = Some 0.50,
       reason = Some ''similar text''\<rparr>,
      \<lparr>bill_congress_type_number = None, score = Some 0.91,
       reason = Some ''some title, nearly identical''\<rparr>]"

definition example_view :: bill_detail_view where
  "example_view =
     \<lparr>object =
        \<lparr>object_number = ''116hr299'', get_similar_bills = example_matches,
         committees_dict = [], cosponsors_dict = [],
         sponsor = \<lparr>name = None, entry_bioguide_id = None, original_cosponsor = False,
                    rank = PyNone, entry_committee_id = None, committee_name = None,
                    entry_party = None, entry_name_full_official = None, current = None,
                    sponsor_flag = False\<rparr>\<rparr>,
      identical_bill_numbers = []\<rparr>"

subsection \<open>The roster, person by person\<close>

text \<open>
  What the loop of \<^verbatim>\<open>get_cosponsors_for_same_bills\<close> holds for a \<^verbatim>\<open>bioguide_id\<close> after the
  rows fetched: nothing if no row bears it; otherwise the entry made from the first such
  row, with the bill numbers of all such rows in fetch order.  \<open>roster_bill_dict\<close> is
  the dictionary \<^verbatim>\<open>bill_dict\<close> of the method.
\<close>

definition merged_for ::
  "(string option \<times> string option) list \<Rightarrow> (nat \<times> string) list \<Rightarrow> 'l cosponsor_row list
     \<Rightarrow> string option \<Rightarrow> 'l merged_cosponsor option" where
  "merged_for committees_map bill_dict rows b =
     (case find (\<lambda>r. bioguide_id r = b) rows of
        None \<Rightarrow> None
      | Some r \<Rightarrow>
          Some ((first_occurrence committees_map (bctn_of bill_dict r) r)
                  \<lparr>bill_congress_type_numbers :=
                     map (bctn_of bill_dict) (filter (\<lambda>r'. bioguide_id r' = b) rows)\<rparr>))"

definition roster_bill_dict :: "nat list \<Rightarrow> string list \<Rightarrow> (nat \<times> string) list" where
  "roster_bill_dict billids billnumbers =
     fold (\<lambda>(billid, billnumber) d. AList.update billid billnumber d)
       (zip billids billnumbers) []"

text \<open>Two bills, \<^verbatim>\<open>116hr1\<close> and its identical \<^verbatim>\<open>116s1\<close>; one person cosponsors both,
  another the first only.\<close>

definition example_rows :: "unit cosponsor_row list" where
  "example_rows =
     [\<lparr>bioguide_id = Some ''A000001'', name_full_official = Some ''Ann Alpha'',
       party = Some ''D'', state = Some ''CA'', leadership = (),
       committees = [\<lparr>assigned_committee = Some ''HSJU'', assigned_rank = Some (PyInt 3),
                       bioguide = Some ''A000001''\<rparr>],
       row_bill = 1\<rparr>,
      \<lparr>bioguide_id = Some ''B000002'', name_full_official = Some ''Bob Beta'',
       party = Some ''R'', state = Some ''TX'', leadership = (),
       committees = [], row_bill = 1\<rparr>,
      \<lparr>bioguide_id = Some ''A000001'', name_full_official = Some ''Ann Alpha'',
       party = Some ''D'', state = Some ''CA'', leadership = (),
       committees = [], row_bill = 2\<rparr>]"

definition example_db :: "unit database" where
  "example_db =
     \<lparr>bill_pk = (\<lambda>billnumber.
         if billnumber = ''116hr1'' then Some 1
         else if billnumber = ''116s1'' then Some 2 else None),
      cosponsors_for_bills = (\<lambda>billids. filter (\<lambda>r. row_bill r \<in> set billids) example_rows),
      cosponsor_by_bioguide = (\<lambda>b. None)\<rparr>"

definition example_roster_view :: bill_detail_view where
  "example_roster_view =
     \<lparr>object =
        \<lparr>object_number = ''116hr1'', get_similar_bills = [],
         committees_dict = [\<lparr>committee = Some ''Judiciary'', committee_id = Some ''HSJU''\<rparr>],
         cosponsors_dict = [],
         sponsor = \<lparr>name = None, entry_bioguide_id = None, original_cosponsor = False,
                    rank = PyNone, entry_committee_id = None, committee_name = None,
                    entry_party = None, entry_name_full_official = None, current = None,
                    sponsor_flag = False\<rparr>\<rparr>,
      identical_bill_numbers = [''116s1'']\<rparr>"

definition example_roster :: "unit merged_cosponsor list" where
  "example_roster =
     [\<lparr>bioguide_id = Some ''A000001'', name_full_official = Some ''Ann Alpha'',
       party = Some ''D'', state = Some ''CA'', leadership = (),
       committees = [\<lparr>assigned_committee = Some ''HSJU'', assigned_rank = Some (PyInt 3),
                       bioguide = Some ''A000001''\<rparr>],
       row_bill = 1,
       bill_congress_type_numbers = [''116hr1'', ''116s1''],
       committees_named = [Some ''Judiciary''], ranks = [PyInt 3]\<rparr>,
      \<lparr>bioguide_id = Some ''B000002'', name_full_official = Some ''Bob Beta'',
       party = Some ''R'', state = Some ''TX'', leadership = (),
       committees = [], row_bill = 1,
       bill_congress_type_numbers = [''116hr1''],
       committees_named = [], ranks = []\<rparr>]"

subsection \<open>The displayed order, step by step\<close>

text \<open>
  The two steps of \<^verbatim>\<open>get_cosponsors_dict\<close> around the enrichment: putting the sponsor (or
  the cosponsor bearing the sponsor's name) in front of the name-sorted cosponsors, and
  arranging the entries after the first by original cosponsorship and rank.
\<close>

definition with_sponsor_first :: "cosponsor_entry \<Rightarrow> cosponsor_entry list \<Rightarrow> cosponsor_entry list" where
  "with_sponsor_first the_sponsor sorted_cosponsors =
     (if name_or_empty the_sponsor \<noteq> [] then
        (case filter (\<lambda>c. name_or_empty c = name_or_empty the_sponsor) sorted_cosponsors of
           [] \<Rightarrow> the_sponsor # sorted_cosponsors
         | s # _ \<Rightarrow> s # remove1 s sorted_cosponsors)
      else sorted_cosponsors)"

definition display_order :: "cosponsor_entry list \<Rightarrow> cosponsor_entry list" where
  "display_order entries =
     take 1 entries
     @ sort_key int_rank (filter has_int_rank (filter original_cosponsor (drop 1 entries)))
     @ filter (\<lambda>c. \<not> has_int_rank c) (filter original_cosponsor (drop 1 entries))
     @ sort_key int_rank
         (filter has_int_rank (filter (\<lambda>c. \<not> original_cosponsor c) (drop 1 entries)))
     @ filter (\<lambda>c. \<not> has_int_rank c)
         (filter (\<lambda>c. \<not> original_cosponsor c) (drop 1 entries))"

text \<open>Two cosponsors, a bill whose sponsor bears the name of the second, and a bill
  whose sponsor has no name.\<close>

definition adams_entry :: cosponsor_entry where
  "adams_entry =
     \<lparr>name = Some ''Adams'', entry_bioguide_id = None, original_cosponsor = True,
      rank = PyInt 1, entry_committee_id = None, committee_name = None,
      entry_party = None, entry_name_full_official = None, current = None,
      sponsor_flag = False\<rparr>"

definition smith_entry :: cosponsor_entry where
  "smith_entry =
     \<lparr>name = Some ''Smith'', entry_bioguide_id = None, original_cosponsor = False,
      rank = PyInt 5, entry_committee_id = None, committee_name = None,
      entry_party = None, entry_name_full_official = None, current = None,
      sponsor_flag = False\<rparr>"

definition named_sponsor_object :: bill_object where
  "named_sponsor_object =
     \<lparr>object_number = ''116hr1'', get_similar_bills = [], committees_dict = [],
      cosponsors_dict = [smith_entry, adams_entry],
      sponsor = \<lparr>name = Some ''Smith'', entry_bioguide_id = None, original_cosponsor = False,
                 rank = PyNone, entry_committee_id = None, committee_name = None,
                 entry_party = None, entry_name_full_official = None, current = None,
                 sponsor_flag = False\<rparr>\<rparr>"

definition nameless_sponsor_object :: bill_object where
  "nameless_sponsor_object =
     \<lparr>object_number = ''116hr1'', get_similar_bills = [], committees_dict = [],
      cosponsors_dict = [adams_entry],
      sponsor = \<lparr>name = None, entry_bioguide_id = None, original_cosponsor = False,
                 rank = PyNone, entry_committee_id = None, committee_name = None,
                 entry_party = None, entry_name_full_official = None, current = None,
                 sponsor_flag = False\<rparr>\<rparr>"

section \<open>Properties\<close>

subsection \<open>The normalisers\<close>

lemma split_py_no_sep:
  "c \<notin> set s \<Longrightarrow> split_py [c] s = [s]"
  by (induction s) auto

lemma split_py_first_sep:
  "c \<notin> set t \<Longrightarrow> split_py [c] (t @ c # r) = t # split_py [c] r"
  by (induction t) auto

lemma split_py_two_segments:
  "c \<notin> set t \<Longrightarrow> c \<notin> set r \<Longrightarrow> split_py [c] (t @ c # r) = [t, r]"
  by (simp add: split_py_first_sep split_py_no_sep)

lemma one_occurrence_decomp:
  assumes "count_list s c = 1"
  shows "\<exists>t r. s = t @ c # r \<and> c \<notin> set t \<and> c \<notin> set r"
proof -
  from assms have "c \<in> set s"
    by (metis count_list_0_iff zero_neq_one)
  then obtain t r where s: "s = t @ c # r" and t: "c \<notin> set t"
    by (auto dest: split_list_first)
  from assms s t have "count_list r c = 0"
    by simp
  then have "c \<notin> set r"
    by (simp add: count_list_0_iff)
  with s t show ?thesis by blast
qed

text \<open>
  Claim C4.  A bill identifier \<open>tn @ ''-'' @ cg\<close>, with \<open>tn\<close> the type and number and \<open>cg\<close> the
  congress, both non-empty and free of hyphens, is normalised to \<open>cg @ tn\<close>: by
  \<open>billIdToBillNumber\<close>, and by \<open>getBillCongressTypeNumber\<close>, which then writes nothing to
  the log.
\<close>

theorem normalize_valid_bill_id:
  assumes "tn \<noteq> []" and "cg \<noteq> []"
    and "CHR ''-'' \<notin> set tn" and "CHR ''-'' \<notin> set cg"
  shows "billIdToBillNumber (tn @ ''-'' @ cg) = cg @ tn
       \<and> getBillCongressTypeNumber (fileDict\<lparr>bill_id := Some (tn @ ''-'' @ cg)\<rparr>)
           = Inr (Some (cg @ tn), [])"
  using assms
  by (simp add: billIdToBillNumber_def getBillCongressTypeNumber_def
      split_py_two_segments)

theorem normalize_valid_bill_id_witness:
  "billIdToBillNumber ''hr299-116'' = ''116hr299''
   \<and> getBillCongressTypeNumber
       \<lparr>bill_id = Some ''hr299-116'', bill_type = Some ''hr'', titles = None,
        cosponsors = (None :: unit cosponsor_dict list option)\<rparr>
     = Inr (Some ''116hr299'', [])"
proof -
  have h1: "''hr299'' \<noteq> []" and h2: "''116'' \<noteq> []"
    and h3: "CHR ''-'' \<notin> set ''hr299''" and h4: "CHR ''-'' \<notin> set ''116''"
    by simp_all
  have "billIdToBillNumber (''hr299'' @ ''-'' @ ''116'') = ''116'' @ ''hr299''
       \<and> getBillCongressTypeNumber
           (\<lparr>bill_id = None, bill_type = Some ''hr'', titles = None,
             cosponsors = (None :: unit cosponsor_dict list option)\<rparr>
              \<lparr>bill_id := Some (''hr299'' @ ''-'' @ ''116'')\<rparr>)
           = Inr (Some (''116'' @ ''hr299''), [])"
    by (rule normalize_valid_bill_id [OF h1 h2 h3 h4])
  then show ?thesis by simp
qed

text \<open>
  Claim C9.  On an identifier with exactly one hyphen the two normalisers return the same
  string, and \<open>getBillCongressTypeNumber\<close> logs nothing.  With two hyphens they can
  differ: on \<open>''a-b-c''\<close> the script's normaliser keeps the first two segments only
  (\<open>''ba''\<close>) while the view's reverses all three (\<open>''cba''\<close>).
\<close>

theorem normalizers_agree_one_hyphen:
  "(count_list b CHR ''-'' = 1 \<longrightarrow>
      getBillCongressTypeNumber (fileDict\<lparr>bill_id := Some b\<rparr>)
        = Inr (Some (billIdToBillNumber b), []))
   \<and> (2 \<le> count_list ''a-b-c'' CHR ''-''
      \<and> getBillCongressTypeNumber (fileDict\<lparr>bill_id := Some ''a-b-c''\<rparr>)
          = Inr (Some ''ba'', [])
      \<and> billIdToBillNumber ''a-b-c'' = ''cba'')"
proof -
  have agree: "getBillCongressTypeNumber (fileDict\<lparr>bill_id := Some b\<rparr>)
      = Inr (Some (billIdToBillNumber b), [])" if one: "count_list b CHR ''-'' = 1"
  proof -
    from one obtain t r where b: "b = t @ CHR ''-'' # r"
      and t: "CHR ''-'' \<notin> set t" and r: "CHR ''-'' \<notin> set r"
      using one_occurrence_decomp [of b "CHR ''-''"] by auto
    have sp: "split_py ''-'' (t @ CHR ''-'' # r) = [t, r]"
      using t r by (rule split_py_two_segments)
    show ?thesis
      unfolding b by (simp add: billIdToBillNumber_def getBillCongressTypeNumber_def sp)
  qed
  have two: "2 \<le> count_list ''a-b-c'' CHR ''-''"
    by simp
  have script: "getBillCongressTypeNumber (fileDict\<lparr>bill_id := Some ''a-b-c''\<rparr>)
      = Inr (Some ''ba'', [])"
    by (simp add: getBillCongressTypeNumber_def)
  have view: "billIdToBillNumber ''a-b-c'' = ''cba''"
    by (simp add: billIdToBillNumber_def)
  from agree two script view show ?thesis
    by (intro conjI impI)
qed

theorem normalizers_agree_one_hyphen_witness:
  "count_list ''hr299-116'' CHR ''-'' = 1
   \<and> getBillCongressTypeNumber
       \<lparr>bill_id = Some ''hr299-116'', bill_type = None, titles = None,
        cosponsors = (None :: unit cosponsor_dict list option)\<rparr>
     = Inr (Some (billIdToBillNumber ''hr299-116''), [])
   \<and> billIdToBillNumber ''hr299-116'' = ''116hr299''"
proof -
  have one: "count_list ''hr299-116'' CHR ''-'' = 1"
    by simp
  have "getBillCongressTypeNumber
       (\<lparr>bill_id = None, bill_type = None, titles = None,
         cosponsors = (None :: unit cosponsor_dict list option)\<rparr>
          \<lparr>bill_id := Some ''hr299-116''\<rparr>)
     = Inr (Some (billIdToBillNumber ''hr299-116''), [])"
    by (rule normalizers_agree_one_hyphen [THEN conjunct1, rule_format, OF one])
  moreover have "billIdToBillNumber ''hr299-116'' = ''116hr299''"
    by (simp add: billIdToBillNumber_def)
  ultimately show ?thesis using one by simp
qed

subsection \<open>One record of the aggregation\<close>

lemma getBillTitles_default:
  "getBillTitles r True ''all'' = Inr (titles r)"
  by (simp add: getBillTitles_def)

lemma getCosponsors_fields:
  "getCosponsors r [''name'', ''bioguide_id''] =
     (case cosponsors r of
        None \<Rightarrow> Inl TypeError
      | Some cs \<Rightarrow> Inr (Some (map (project_fields [''name'', ''bioguide_id'']) cs)))"
  by (simp add: getCosponsors_def)

lemma normaliser_no_log:
  "getBillCongressTypeNumber r = Inr (Some k, msgs) \<Longrightarrow> msgs = []"
  by (auto simp: getBillCongressTypeNumber_def Let_def split: option.splits if_splits)

lemma addToBillsMeta_contribution:
  "addToBillsMeta st r =
     (case contribution r of
        Raises e \<Rightarrow> Inl e
      | Skipped msgs \<Rightarrow> Inr (st\<lparr>logged := logged st @ msgs\<rparr>)
      | Writes k T W C \<Rightarrow>
          Inr (checkpoint_if_due
                 (st\<lparr>billsMeta := AList.update k
                        (set_fields T W C (entry_or_empty (billsMeta st) k)) (billsMeta st)\<rparr>)))"
proof (cases "getBillCongressTypeNumber r")
  case (Inl e)
  then show ?thesis
    by (simp add: addToBillsMeta_def contribution_def)
next
  case (Inr p)
  obtain ko msgs where p: "p = (ko, msgs)" by (cases p)
  show ?thesis
  proof (cases ko)
    case None
    with Inr p show ?thesis
      by (simp add: addToBillsMeta_def contribution_def)
  next
    case (Some k)
    with Inr p have msgs: "msgs = []"
      using normaliser_no_log by blast
    show ?thesis
    proof (cases "k = []")
      case True
      with Inr p Some show ?thesis
        by (simp add: addToBillsMeta_def contribution_def)
    next
      case False
      with Inr p Some msgs show ?thesis
        by (simp add: addToBillsMeta_def contribution_def getBillTitles_default
            getCosponsors_fields set_fields_def entry_or_empty_def checkpoint_if_due_def
            Let_def split: option.splits)
    qed
  qed
qed

lemma billsMeta_checkpoint_if_due [simp]:
  "billsMeta (checkpoint_if_due st) = billsMeta st"
  by (simp add: checkpoint_if_due_def saveBillsMeta_def)

lemma logged_checkpoint_if_due [simp]:
  "logged (checkpoint_if_due st) = logged st"
  by (simp add: checkpoint_if_due_def saveBillsMeta_def)

lemma saved_checkpoint_if_due:
  "saved (checkpoint_if_due st) =
     (if length (billsMeta st) mod SAVE_ON_COUNT = 0 then saved st @ [billsMeta st]
      else saved st)"
  by (simp add: checkpoint_if_due_def saveBillsMeta_def)

lemma resolved_key_Writes:
  "contribution r = Writes k T W C \<Longrightarrow> resolved_key r = Some k"
  by (auto simp: contribution_def resolved_key_def
      split: sum.splits option.splits if_splits prod.splits)

lemma resolved_key_Skipped:
  "contribution r = Skipped msgs \<Longrightarrow> resolved_key r = None"
  by (auto simp: contribution_def resolved_key_def
      split: sum.splits option.splits if_splits prod.splits)

lemma contribution_missing:
  assumes "bill_id r = None \<or> bill_id r = Some []"
  shows "contribution r = Skipped [no_bill_id_message r]"
  using assms
  by (auto simp: contribution_def getBillCongressTypeNumber_def no_bill_id_message_def)

lemma walk_append:
  "walkBillDirs f st (xs @ ys) =
     (case walkBillDirs f st xs of Inl e \<Rightarrow> Inl e | Inr st' \<Rightarrow> walkBillDirs f st' ys)"
  by (induction xs arbitrary: st) (auto split: sum.splits)

subsection \<open>Records without a bill identifier\<close>

lemma same_data_refl [simp]: "same_data s s"
  by (simp add: same_data_def)

lemma same_data_checkpoint:
  "same_data s t \<Longrightarrow> same_data (checkpoint_if_due s) (checkpoint_if_due t)"
  by (simp add: same_data_def checkpoint_if_due_def saveBillsMeta_def)

lemma addToBillsMeta_same_data:
  assumes "same_data s t"
  shows "rel_sum (=) same_data (addToBillsMeta s r) (addToBillsMeta t r)"
proof (cases "contribution r")
  case (Raises e)
  then show ?thesis by (simp add: addToBillsMeta_contribution)
next
  case (Skipped msgs)
  with assms show ?thesis
    by (simp add: addToBillsMeta_contribution same_data_def)
next
  case (Writes k T W C)
  from assms have "same_data
      (s\<lparr>billsMeta := AList.update k (set_fields T W C (entry_or_empty (billsMeta s) k)) (billsMeta s)\<rparr>)
      (t\<lparr>billsMeta := AList.update k (set_fields T W C (entry_or_empty (billsMeta t) k)) (billsMeta t)\<rparr>)"
    by (simp add: same_data_def)
  then show ?thesis
    by (simp add: addToBillsMeta_contribution Writes same_data_checkpoint)
qed

lemma walk_same_data:
  assumes "same_data s t"
  shows "rel_sum (=) same_data
           (walkBillDirs addToBillsMeta s rs) (walkBillDirs addToBillsMeta t rs)"
  using assms
proof (induction rs arbitrary: s t)
  case Nil
  then show ?case by simp
next
  case (Cons r rs)
  note step = addToBillsMeta_same_data [OF Cons.prems, of r]
  show ?case
  proof (cases "addToBillsMeta s r")
    case (Inl e)
    with step show ?thesis
      by (cases "addToBillsMeta t r") simp_all
  next
    case (Inr s')
    with step obtain t' where t': "addToBillsMeta t r = Inr t'" and "same_data s' t'"
      by (cases "addToBillsMeta t r") simp_all
    with Cons.IH [of s' t'] Inr show ?thesis
      by simp
  qed
qed

lemma update_same_data:
  assumes "rel_sum (=) same_data (walkBillDirs addToBillsMeta s rs)
             (walkBillDirs addToBillsMeta t rs')"
  shows "rel_sum (=) same_data (updateBillsMeta s rs) (updateBillsMeta t rs')"
  using assms
  by (cases "walkBillDirs addToBillsMeta s rs"; cases "walkBillDirs addToBillsMeta t rs'")
     (simp_all add: updateBillsMeta_def same_data_def saveBillsMeta_def)

text \<open>
  Claim C5 (as amended).  A record whose \<^verbatim>\<open>bill_id\<close> is missing or empty makes the
  normaliser log \<^verbatim>\<open>No bill_id: ...\<close> and return \<^verbatim>\<open>None\<close>; the aggregator then returns
  without touching the dictionary or the artifact and without raising, and the run over
  the whole corpus ends as the run over the corpus without that record does: with the
  same exception, or with the same dictionary and the same snapshots.
\<close>

theorem missing_bill_id_skipped:
  assumes "bill_id r = None \<or> bill_id r = Some []"
  shows "getBillCongressTypeNumber r = Inr (None, [no_bill_id_message r])
       \<and> addToBillsMeta st r = Inr (st\<lparr>logged := logged st @ [no_bill_id_message r]\<rparr>)
       \<and> rel_sum (=) same_data
            (updateBillsMeta st (rs1 @ r # rs2)) (updateBillsMeta st (rs1 @ rs2))"
proof (intro conjI)
  from assms show "getBillCongressTypeNumber r = Inr (None, [no_bill_id_message r])"
    by (auto simp: getBillCongressTypeNumber_def no_bill_id_message_def)
  show step: "addToBillsMeta st r = Inr (st\<lparr>logged := logged st @ [no_bill_id_message r]\<rparr>)"
    for st :: "'a agg_state"
    by (simp add: addToBillsMeta_contribution contribution_missing [OF assms])
  have "rel_sum (=) same_data
          (walkBillDirs addToBillsMeta st (rs1 @ r # rs2))
          (walkBillDirs addToBillsMeta st (rs1 @ rs2))"
  proof (cases "walkBillDirs addToBillsMeta st rs1")
    case (Inl e)
    then show ?thesis by (simp add: walk_append)
  next
    case (Inr s)
    have "same_data (s\<lparr>logged := logged s @ [no_bill_id_message r]\<rparr>) s"
      by (simp add: same_data_def)
    from walk_same_data [OF this, of rs2] Inr show ?thesis
      by (simp add: walk_append step)
  qed
  then show "rel_sum (=) same_data
            (updateBillsMeta st (rs1 @ r # rs2)) (updateBillsMeta st (rs1 @ rs2))"
    by (rule update_same_data)
qed

theorem missing_bill_id_skipped_witness:
  "getBillCongressTypeNumber
      \<lparr>bill_id = None, bill_type = Some ''hr'', titles = None,
       cosponsors = (None :: unit cosponsor_dict list option)\<rparr>
     = Inr (None, [''No bill_id: hr''])
   \<and> addToBillsMeta \<lparr>billsMeta = [], logged = [], saved = []\<rparr>
      \<lparr>bill_id = None, bill_type = Some ''hr'', titles = None,
       cosponsors = (None :: unit cosponsor_dict list option)\<rparr>
     = Inr \<lparr>billsMeta = [], logged = [''No bill_id: hr''], saved = []\<rparr>"
proof -
  let ?r = "\<lparr>bill_id = None, bill_type = Some ''hr'', titles = None,
       cosponsors = (None :: unit cosponsor_dict list option)\<rparr>"
  have h: "bill_id ?r = None \<or> bill_id ?r = Some []"
    by simp
  have m: "no_bill_id_message ?r = ''No bill_id: hr''"
    by (simp add: no_bill_id_message_def str_opt_def)
  from missing_bill_id_skipped [OF h, of "\<lparr>billsMeta = [], logged = [], saved = []\<rparr>"]
  show ?thesis
    by (simp add: m)
qed

text \<open>
  Claim C5 as stated fails for a malformed identifier: \<^verbatim>\<open>hr299\<close> has no hyphen, the
  normaliser raises \<^verbatim>\<open>IndexError\<close> instead of returning \<^verbatim>\<open>None\<close>, and the exception
  leaves \<^verbatim>\<open>updateBillsMeta\<close>, so the well-formed record after it is never processed.
\<close>

theorem malformed_bill_id_raises:
  "getBillCongressTypeNumber
      \<lparr>bill_id = Some ''hr299'', bill_type = Some ''hr'', titles = Some [],
       cosponsors = Some ([] :: unit cosponsor_dict list)\<rparr>
     = Inl IndexError
   \<and> updateBillsMeta \<lparr>billsMeta = [], logged = [], saved = []\<rparr>
       [\<lparr>bill_id = Some ''hr299'', bill_type = Some ''hr'', titles = Some [],
         cosponsors = Some ([] :: unit cosponsor_dict list)\<rparr>,
        \<lparr>bill_id = Some ''hr300-116'', bill_type = Some ''hr'', titles = Some [],
         cosponsors = Some []\<rparr>]
     = Inl IndexError"
  by (simp add: getBillCongressTypeNumber_def updateBillsMeta_def addToBillsMeta_def)

subsection \<open>Checkpoints\<close>

text \<open>
  Claim C6 (as amended).  Processing a record that does not raise writes a snapshot exactly
  when the record has a resolvable key and the dictionary then holds a multiple of
  \<open>SAVE_ON_COUNT = 1000\<close> keys, whether the key was new or already present.  A record
  without a resolvable key leaves the dictionary, and so the count, as it was; a record
  with key \<open>k\<close> appends \<open>k\<close> to the keys if it is new and changes no key otherwise, so
  the keys stay distinct and their number is the number of distinct keys inserted.
\<close>

theorem checkpoint_iff_count_multiple:
  assumes "addToBillsMeta st r = Inr st'"
  shows "saved st' =
           (if resolved_key r \<noteq> None \<and> length (billsMeta st') mod SAVE_ON_COUNT = 0
            then saved st @ [billsMeta st'] else saved st)
       \<and> (resolved_key r = None \<longrightarrow> billsMeta st' = billsMeta st)
       \<and> (\<forall>k. resolved_key r = Some k \<longrightarrow>
             map fst (billsMeta st') =
               (if k \<in> set (map fst (billsMeta st)) then map fst (billsMeta st)
                else map fst (billsMeta st) @ [k]))
       \<and> (distinct (map fst (billsMeta st)) \<longrightarrow> distinct (map fst (billsMeta st')))"
proof (cases "contribution r")
  case (Raises e)
  with assms show ?thesis
    by (simp add: addToBillsMeta_contribution)
next
  case (Skipped msgs)
  with assms have "st' = st\<lparr>logged := logged st @ msgs\<rparr>"
    by (simp add: addToBillsMeta_contribution)
  with resolved_key_Skipped [OF Skipped] show ?thesis
    by simp
next
  case (Writes k T W C)
  let ?m = "AList.update k (set_fields T W C (entry_or_empty (billsMeta st) k)) (billsMeta st)"
  from assms Writes have st': "st' = checkpoint_if_due (st\<lparr>billsMeta := ?m\<rparr>)"
    by (simp add: addToBillsMeta_contribution)
  have m: "billsMeta st' = ?m"
    by (simp add: st')
  have s: "saved st' =
     (if length ?m mod SAVE_ON_COUNT = 0 then saved st @ [?m] else saved st)"
    by (simp add: st' saved_checkpoint_if_due)
  from resolved_key_Writes [OF Writes] m s show ?thesis
    by (simp add: update_keys distinct_update)
qed

lemma thousand_keys_length: "length thousand_keys = 1000"
  by (simp add: thousand_keys_def)

lemma thousand_keys_first: "''116hr1'' \<in> set thousand_keys"
proof -
  have "(0::nat) \<in> set [0..<1000]" by simp
  then have "(''116hr'' @ replicate (Suc 0) CHR ''1'') \<in> set thousand_keys"
    unfolding thousand_keys_def set_map by (rule imageI)
  then show ?thesis by simp
qed

lemma thousand_state_keys: "map fst (billsMeta thousand_state) = thousand_keys"
  by (simp add: thousand_state_def comp_def)

lemma thousand_state_entry: "entry_or_empty (billsMeta thousand_state) ''116hr1'' = []"
proof -
  have "map_of (map (\<lambda>k. (k, [] :: unit meta_entry)) thousand_keys) ''116hr1'' = Some []"
    using thousand_keys_first by (simp add: map_of_map_restrict)
  then show ?thesis
    by (simp add: entry_or_empty_def thousand_state_def)
qed

lemma thousand_meta_after_keys: "map fst thousand_meta_after = thousand_keys"
  using thousand_keys_first
  by (simp add: thousand_meta_after_def update_keys thousand_state_keys)

lemma thousand_meta_after_length: "length thousand_meta_after = 1000"
  using thousand_meta_after_keys thousand_keys_length by (metis length_map)

lemma thousand_state_rerun:
  "addToBillsMeta thousand_state rerun_record
   = Inr \<lparr>billsMeta = thousand_meta_after, logged = [], saved = [thousand_meta_after]\<rparr>"
proof -
  have c: "contribution rerun_record = Writes ''116hr1'' [] [] (Some [])"
    by (simp add: rerun_record_def contribution_def getBillCongressTypeNumber_def)
  have e: "AList.update ''116hr1''
             (set_fields [] [] (Some []) (entry_or_empty (billsMeta thousand_state) ''116hr1''))
             (billsMeta thousand_state) = thousand_meta_after"
    by (simp add: thousand_state_entry set_fields_def thousand_meta_after_def)
  have l: "logged thousand_state = []" and s: "saved thousand_state = []"
    by (simp_all add: thousand_state_def)
  show ?thesis
    by (simp add: addToBillsMeta_contribution c e checkpoint_if_due_def SAVE_ON_COUNT_def
        saveBillsMeta_def thousand_meta_after_length l s)
qed

theorem checkpoint_iff_count_multiple_witness:
  "addToBillsMeta thousand_state rerun_record
     = Inr \<lparr>billsMeta = thousand_meta_after, logged = [], saved = [thousand_meta_after]\<rparr>
   \<and> resolved_key rerun_record = Some ''116hr1''
   \<and> length thousand_meta_after mod SAVE_ON_COUNT = 0
   \<and> [thousand_meta_after] = saved thousand_state @ [thousand_meta_after]"
proof -
  let ?st' = "\<lparr>billsMeta = thousand_meta_after, logged = [], saved = [thousand_meta_after]\<rparr>"
  have rk: "resolved_key rerun_record = Some ''116hr1''"
    by (simp add: resolved_key_def rerun_record_def getBillCongressTypeNumber_def)
  have len: "length thousand_meta_after mod SAVE_ON_COUNT = 0"
    by (simp add: thousand_meta_after_length SAVE_ON_COUNT_def)
  have "saved ?st' =
           (if resolved_key rerun_record \<noteq> None
               \<and> length (billsMeta ?st') mod SAVE_ON_COUNT = 0
            then saved thousand_state @ [billsMeta ?st'] else saved thousand_state)"
    by (rule checkpoint_iff_count_multiple [OF thousand_state_rerun, THEN conjunct1])
  with rk len have "[thousand_meta_after] = saved thousand_state @ [thousand_meta_after]"
    by simp
  with rk len thousand_state_rerun show ?thesis
    by (intro conjI)
qed

text \<open>
  Claim C6 as stated fails when a key is written again: with 1000 keys in the dictionary,
  \<^verbatim>\<open>116hr1\<close> among them, and no snapshot so far, processing \<^verbatim>\<open>hr1-116\<close> once more writes
  a snapshot although no key is inserted.
\<close>

theorem checkpoint_without_new_key:
  "''116hr1'' \<in> set (map fst (billsMeta thousand_state))
   \<and> length (billsMeta thousand_state) = 1000
   \<and> saved thousand_state = []
   \<and> addToBillsMeta thousand_state rerun_record
     = Inr \<lparr>billsMeta = thousand_meta_after, logged = [], saved = [thousand_meta_after]\<rparr>
   \<and> map fst thousand_meta_after = map fst (billsMeta thousand_state)"
proof (intro conjI)
  show "''116hr1'' \<in> set (map fst (billsMeta thousand_state))"
    by (simp only: thousand_state_keys thousand_keys_first)
  show "saved thousand_state = []"
    by (simp add: thousand_state_def)
  show "length (billsMeta thousand_state) = 1000"
    using thousand_keys_length thousand_state_keys by (metis length_map)
  show "map fst thousand_meta_after = map fst (billsMeta thousand_state)"
    by (simp only: thousand_state_keys thousand_meta_after_keys)
qed (rule thousand_state_rerun)

subsection \<open>Running the aggregation twice\<close>

lemma write_fields_twice: "write_fields T W C (write_fields T' W' C' e) = write_fields T W C e"
  by (rule ext) (simp add: write_fields_def)

lemma map_of_set_fields: "map_of (set_fields T W C e) = write_fields T W C (map_of e)"
  by (simp add: set_fields_def write_fields_def update_conv')

lemma map_of_entry_or_empty: "map_of (entry_or_empty m k) = entry_dict (dict_of m) k"
  by (simp add: entry_or_empty_def entry_dict_def dict_of_def split: option.splits)

lemma dict_of_update: "dict_of (AList.update k e m) = (dict_of m)(k \<mapsto> map_of e)"
  by (rule ext) (simp add: dict_of_def update_conv')

lemma addToBillsMeta_dict:
  assumes "addToBillsMeta st r = Inr st'"
  shows "dict_of (billsMeta st') = dict_step (contribution r) (dict_of (billsMeta st))"
  using assms
  by (cases "contribution r")
     (auto simp: addToBillsMeta_contribution dict_step_def dict_of_update map_of_set_fields
        map_of_entry_or_empty)

lemma addToBillsMeta_succeeds_iff:
  "(\<exists>st'. addToBillsMeta st r = Inr st') \<longleftrightarrow> (\<forall>e. contribution r \<noteq> Raises e)"
  by (cases "contribution r") (simp_all add: addToBillsMeta_contribution)

lemma walk_dict:
  assumes "walkBillDirs addToBillsMeta st rs = Inr st'"
  shows "dict_of (billsMeta st') = fold dict_step (map contribution rs) (dict_of (billsMeta st))
       \<and> (\<forall>r\<in>set rs. \<forall>e. contribution r \<noteq> Raises e)"
  using assms
proof (induction rs arbitrary: st)
  case Nil
  then show ?case by simp
next
  case (Cons r rs)
  from Cons.prems obtain s where s: "addToBillsMeta st r = Inr s"
    and rest: "walkBillDirs addToBillsMeta s rs = Inr st'"
    by (auto split: sum.splits)
  from s have "\<forall>e. contribution r \<noteq> Raises e"
    using addToBillsMeta_succeeds_iff by blast
  with Cons.IH [OF rest] addToBillsMeta_dict [OF s] show ?case
    by simp
qed

lemma walk_succeeds:
  assumes "\<forall>r\<in>set rs. \<forall>e. contribution r \<noteq> Raises e"
  shows "\<exists>st'. walkBillDirs addToBillsMeta st rs = Inr st'"
  using assms
proof (induction rs arbitrary: st)
  case Nil
  then show ?case by simp
next
  case (Cons r rs)
  then obtain s where "addToBillsMeta st r = Inr s"
    using addToBillsMeta_succeeds_iff [of st r] by auto
  with Cons show ?case by simp
qed

lemma dict_step_apply:
  "dict_step c D k' =
     (case c of
        Writes k T W C \<Rightarrow> if k' = k then Some (write_fields T W C (entry_dict D k)) else D k'
      | _ \<Rightarrow> D k')"
  by (simp add: dict_step_def split: contribution.splits)

lemma fold_dict_step_last_write:
  "fold dict_step cs D k =
     (case last_write cs k of
        None \<Rightarrow> D k
      | Some (T, W, C) \<Rightarrow> Some (write_fields T W C (entry_dict D k)))"
proof (induction cs arbitrary: D)
  case Nil
  show ?case by simp
next
  case (Cons c cs)
  have "fold dict_step (c # cs) D k =
     (case last_write cs k of
        None \<Rightarrow> dict_step c D k
      | Some (T, W, C) \<Rightarrow> Some (write_fields T W C (entry_dict (dict_step c D) k)))"
    by (simp add: Cons.IH)
  also have "\<dots> =
     (case last_write (c # cs) k of
        None \<Rightarrow> D k
      | Some (T, W, C) \<Rightarrow> Some (write_fields T W C (entry_dict D k)))"
    by (cases c)
       (auto simp: dict_step_apply entry_dict_def write_fields_twice split: option.splits)
  finally show ?case .
qed

lemma fold_dict_step_idem:
  "fold dict_step cs (fold dict_step cs D) = fold dict_step cs D"
proof (rule ext)
  fix k
  show "fold dict_step cs (fold dict_step cs D) k = fold dict_step cs D k"
    by (simp add: fold_dict_step_last_write [where D = "fold dict_step cs D"]
          fold_dict_step_last_write [where D = D] entry_dict_def write_fields_twice
        split: option.splits)
qed

text \<open>
  Claim C7.  If a run of \<^verbatim>\<open>updateBillsMeta\<close> over a corpus ends without an exception, a
  second run over the same corpus, started from the dictionary the first one returned,
  ends without an exception too and returns an equal dictionary: the same keys, and under
  each key the same fields with the same values.
\<close>

theorem rerun_idempotent:
  assumes "updateBillsMeta st rs = Inr st1"
  shows "\<exists>st2. updateBillsMeta st1 rs = Inr st2
            \<and> dict_of (billsMeta st2) = dict_of (billsMeta st1)"
proof -
  from assms obtain s1 where w1: "walkBillDirs addToBillsMeta st rs = Inr s1"
    and st1: "st1 = saveBillsMeta s1"
    by (auto simp: updateBillsMeta_def split: sum.splits)
  have b1: "billsMeta st1 = billsMeta s1"
    by (simp add: st1 saveBillsMeta_def)
  from walk_dict [OF w1]
  have d1: "dict_of (billsMeta s1) = fold dict_step (map contribution rs) (dict_of (billsMeta st))"
    and ok: "\<forall>r\<in>set rs. \<forall>e. contribution r \<noteq> Raises e"
    by simp_all
  from walk_succeeds [OF ok] obtain s2
    where w2: "walkBillDirs addToBillsMeta st1 rs = Inr s2" by blast
  from walk_dict [OF w2]
  have d2: "dict_of (billsMeta s2) = fold dict_step (map contribution rs) (dict_of (billsMeta st1))"
    by simp
  have "dict_of (billsMeta s2) = dict_of (billsMeta s1)"
    by (simp add: d2 b1 d1 fold_dict_step_idem)
  then have "dict_of (billsMeta (saveBillsMeta s2)) = dict_of (billsMeta st1)"
    by (simp add: b1 saveBillsMeta_def)
  with w2 show ?thesis
    by (simp add: updateBillsMeta_def)
qed

theorem rerun_idempotent_witness:
  "updateBillsMeta \<lparr>billsMeta = [], logged = [], saved = []\<rparr>
     [\<lparr>bill_id = Some ''hr1-116'', bill_type = Some ''hr'',
       titles = Some [\<lparr>title = Some ''A'', is_for_portion = False, as_stage = None\<rparr>],
       cosponsors = Some ([] :: unit cosponsor_dict list)\<rparr>,
      \<lparr>bill_id = None, bill_type = None, titles = None, cosponsors = None\<rparr>,
      \<lparr>bill_id = Some ''hr1-116'', bill_type = Some ''hr'',
       titles = Some [\<lparr>title = Some ''B'', is_for_portion = True, as_stage = None\<rparr>],
       cosponsors = Some []\<rparr>]
   = Inr \<lparr>billsMeta =
            [(''116hr1'', [(''titles'', TitleList [Some ''B'']),
                           (''titles_whole_bill'', TitleList []),
                           (''cosponsors'', CosponsorList (Some []))])],
          logged = [''No bill_id: None''],
          saved =
            [[(''116hr1'', [(''titles'', TitleList [Some ''B'']),
                            (''titles_whole_bill'', TitleList []),
                            (''cosponsors'', CosponsorList (Some []))])]]\<rparr>
   \<and> (\<exists>st2.
        updateBillsMeta
          \<lparr>billsMeta =
            [(''116hr1'', [(''titles'', TitleList [Some ''B'']),
                           (''titles_whole_bill'', TitleList []),
                           (''cosponsors'', CosponsorList (Some []))])],
          logged = [''No bill_id: None''],
          saved =
            [[(''116hr1'', [(''titles'', TitleList [Some ''B'']),
                            (''titles_whole_bill'', TitleList []),
                            (''cosponsors'', CosponsorList (Some []))])]]\<rparr>
          [\<lparr>bill_id = Some ''hr1-116'', bill_type = Some ''hr'',
            titles = Some [\<lparr>title = Some ''A'', is_for_portion = False, as_stage = None\<rparr>],
            cosponsors = Some ([] :: unit cosponsor_dict list)\<rparr>,
           \<lparr>bill_id = None, bill_type = None, titles = None, cosponsors = None\<rparr>,
           \<lparr>bill_id = Some ''hr1-116'', bill_type = Some ''hr'',
            titles = Some [\<lparr>title = Some ''B'', is_for_portion = True, as_stage = None\<rparr>],
            cosponsors = Some []\<rparr>] = Inr st2
        \<and> dict_of (billsMeta st2)
          = dict_of [(''116hr1'', [(''titles'', TitleList [Some ''B'']),
                                   (''titles_whole_bill'', TitleList []),
                                   (''cosponsors'', CosponsorList (Some []))])])"
proof -
  have c1: "contribution \<lparr>bill_id = Some ''hr1-116'', bill_type = Some ''hr'',
       titles = Some [\<lparr>title = Some ''A'', is_for_portion = False, as_stage = None\<rparr>],
       cosponsors = Some ([] :: unit cosponsor_dict list)\<rparr>
     = Writes ''116hr1'' [Some ''A''] [Some ''A''] (Some [])"
    by (simp add: contribution_def getBillCongressTypeNumber_def)
  have c2: "contribution \<lparr>bill_id = None, bill_type = None, titles = None,
       cosponsors = (None :: unit cosponsor_dict list option)\<rparr>
     = Skipped [''No bill_id: None'']"
    by (simp add: contribution_def getBillCongressTypeNumber_def str_opt_def)
  have c3: "contribution \<lparr>bill_id = Some ''hr1-116'', bill_type = Some ''hr'',
       titles = Some [\<lparr>title = Some ''B'', is_for_portion = True, as_stage = None\<rparr>],
       cosponsors = Some ([] :: unit cosponsor_dict list)\<rparr>
     = Writes ''116hr1'' [Some ''B''] [] (Some [])"
    by (simp add: contribution_def getBillCongressTypeNumber_def)
  have run: "updateBillsMeta \<lparr>billsMeta = [], logged = [], saved = []\<rparr>
     [\<lparr>bill_id = Some ''hr1-116'', bill_type = Some ''hr'',
       titles = Some [\<lparr>title = Some ''A'', is_for_portion = False, as_stage = None\<rparr>],
       cosponsors = Some ([] :: unit cosponsor_dict list)\<rparr>,
      \<lparr>bill_id = None, bill_type = None, titles = None, cosponsors = None\<rparr>,
      \<lparr>bill_id = Some ''hr1-116'', bill_type = Some ''hr'',
       titles = Some [\<lparr>title = Some ''B'', is_for_portion = True, as_stage = None\<rparr>],
       cosponsors = Some []\<rparr>]
   = Inr \<lparr>billsMeta =
            [(''116hr1'', [(''titles'', TitleList [Some ''B'']),
                           (''titles_whole_bill'', TitleList []),
                           (''cosponsors'', CosponsorList (Some []))])],
          logged = [''No bill_id: None''],
          saved =
            [[(''116hr1'', [(''titles'', TitleList [Some ''B'']),
                            (''titles_whole_bill'', TitleList []),
                            (''cosponsors'', CosponsorList (Some []))])]]\<rparr>"
    by (simp add: updateBillsMeta_def addToBillsMeta_contribution c1 c2 c3
        checkpoint_if_due_def SAVE_ON_COUNT_def saveBillsMeta_def set_fields_def
        entry_or_empty_def)
  from rerun_idempotent [OF run] run show ?thesis
    by simp
qed

subsection \<open>Identical bills\<close>

lemma reason_is_identical_spec:
  "reason bill \<noteq> None \<Longrightarrow>
     reason_is_identical cleanReasons bill = Inr (reason_by_spec cleanReasons bill)"
  by (auto simp: reason_is_identical_def reason_by_spec_def reasons_intersect_def
      list_ex_iff)

lemma score_is_close_spec:
  "score bill \<noteq> None \<Longrightarrow>
     score_is_close (Some cs) bill = Inr (proximity_by_spec cs bill)"
  by (auto simp: score_is_close_def proximity_by_spec_def py_div_def
      SIMILARITY_THRESHOLD_def)

lemma score_is_close_not_positive:
  "cs \<le> 0 \<Longrightarrow> score_is_close (Some cs) bill = Inr False"
  by (simp add: score_is_close_def)

lemma score_is_close_no_division_error:
  "score_is_close c bill \<noteq> Inl ZeroDivisionError"
  by (auto simp: score_is_close_def py_div_def split: option.splits)

lemma is_identical_spec:
  assumes "reason bill \<noteq> None" and "score bill \<noteq> None"
  shows "is_identical cleanReasons (Some cs) bill = Inr (identical_by_spec cleanReasons cs bill)"
  using assms
  by (simp add: is_identical_def reason_is_identical_spec score_is_close_spec
      identical_by_spec_def split: bool.splits)

lemma identical_candidates_spec:
  assumes "\<forall>bill\<in>set bills. reason bill \<noteq> None \<and> score bill \<noteq> None"
  shows "identical_candidates cleanReasons (Some cs) bills =
           Inr (map key_or_empty (filter (identical_by_spec cleanReasons cs) bills))"
  using assms
  by (induction bills) (simp_all add: is_identical_spec)

text \<open>
  Claim C1.  When every match carries a reason and a score, the comprehension of
  \<^verbatim>\<open>get_identical_bill_numbers\<close> yields, for every current score, the bill keys (the
  empty string for a missing key) of exactly the matches that are identical in the sense
  above, in the order of the matches; the method drops the empty keys, hands the list to
  \<^verbatim>\<open>sort_bills_for_congress\<close>, stores it in the view and returns it.
\<close>

theorem resolveIdentical_exact:
  assumes "\<forall>bill\<in>set bills. reason bill \<noteq> None \<and> score bill \<noteq> None"
  shows "identical_candidates cleanReasons (Some currentScore) bills
           = Inr (map key_or_empty (filter (identical_by_spec cleanReasons currentScore) bills))
       \<and> (get_similar_bills (object self) = bills \<longrightarrow>
          get_current_bill_score (object self) = Inr (Some currentScore) \<longrightarrow>
          get_identical_bill_numbers cleanReasons sort_bills self
            = Inr (sort_bills (filter (\<lambda>k. k \<noteq> [])
                     (map key_or_empty
                        (filter (identical_by_spec cleanReasons currentScore) bills))),
                   self\<lparr>identical_bill_numbers :=
                     sort_bills (filter (\<lambda>k. k \<noteq> [])
                       (map key_or_empty
                          (filter (identical_by_spec cleanReasons currentScore) bills)))\<rparr>))"
  by (simp add: identical_candidates_spec [OF assms] get_identical_bill_numbers_def Let_def)

lemma example_matches_identical:
  "map key_or_empty (filter (identical_by_spec (\<lambda>rs. rs) (9 / 10)) example_matches)
     = [''116hr299'', ''116hr300'', []]"
  by (simp add: example_matches_def identical_by_spec_def reason_by_spec_def
      proximity_by_spec_def reasons_intersect_def IDENTICAL_REASONS_def key_or_empty_def)

lemma example_view_score: "get_current_bill_score (object example_view) = Inr (Some 0.90)"
  by (simp add: get_current_bill_score_def get_billnumbers_similar_def example_view_def
      example_matches_def key_or_empty_def)

theorem resolveIdentical_exact_witness:
  "list_all (\<lambda>bill. reason bill \<noteq> None \<and> score bill \<noteq> None) example_matches
   \<and> get_similar_bills (object example_view) = example_matches
   \<and> get_current_bill_score (object example_view) = Inr (Some 0.90)
   \<and> identical_candidates (\<lambda>rs. rs) (Some 0.90) example_matches
       = Inr [''116hr299'', ''116hr300'', []]
   \<and> get_identical_bill_numbers (\<lambda>rs. rs) (\<lambda>ks. ks) example_view
       = Inr ([''116hr299'', ''116hr300''],
              example_view\<lparr>identical_bill_numbers := [''116hr299'', ''116hr300'']\<rparr>)"
proof -
  have wf: "\<forall>bill\<in>set example_matches. reason bill \<noteq> None \<and> score bill \<noteq> None"
    by (simp add: example_matches_def del: not_None_eq)
  have bills: "get_similar_bills (object example_view) = example_matches"
    by (simp add: example_view_def)
  note inst = resolveIdentical_exact [OF wf, of "\<lambda>rs. rs" "0.90" example_view "\<lambda>ks. ks"]
  from inst have a: "identical_candidates (\<lambda>rs. rs) (Some 0.90) example_matches
       = Inr [''116hr299'', ''116hr300'', []]"
    by (simp add: example_matches_identical)
  from inst bills example_view_score
  have "get_identical_bill_numbers (\<lambda>rs. rs) (\<lambda>ks. ks) example_view
       = Inr ([''116hr299'', ''116hr300''],
              example_view\<lparr>identical_bill_numbers := [''116hr299'', ''116hr300'']\<rparr>)"
    by (simp add: example_matches_identical)
  moreover from wf
  have "list_all (\<lambda>bill. reason bill \<noteq> None \<and> score bill \<noteq> None) example_matches"
    by (simp only: list_all_iff)
  ultimately show ?thesis
    using bills example_view_score a by (intro conjI)
qed

lemma reason_is_identical_score [simp]:
  "reason_is_identical cleanReasons (bill\<lparr>score := s\<rparr>) = reason_is_identical cleanReasons bill"
  by (simp add: reason_is_identical_def)

lemma key_or_empty_score [simp]:
  "key_or_empty (bill\<lparr>score := s\<rparr>) = key_or_empty bill"
  by (simp add: key_or_empty_def)

lemma is_identical_not_positive:
  assumes "cs \<le> 0"
  shows "is_identical cleanReasons (Some cs) bill = reason_is_identical cleanReasons bill"
  using assms
  by (simp add: is_identical_def score_is_close_not_positive split: sum.splits bool.splits)

lemma reason_is_identical_no_division_error:
  "reason_is_identical cleanReasons bill \<noteq> Inl ZeroDivisionError"
  by (simp add: reason_is_identical_def split: option.splits)

lemma is_identical_no_division_error:
  "is_identical cleanReasons c bill \<noteq> Inl ZeroDivisionError"
  using reason_is_identical_no_division_error [of cleanReasons bill]
    score_is_close_no_division_error [of c bill]
  by (auto simp: is_identical_def split: sum.splits bool.splits)

lemma identical_candidates_no_division_error:
  "identical_candidates cleanReasons c bills \<noteq> Inl ZeroDivisionError"
proof (induction bills)
  case Nil
  show ?case by simp
next
  case (Cons bill bills)
  with is_identical_no_division_error [of cleanReasons c bill] show ?case
    by (auto split: sum.splits)
qed

lemma identical_candidates_score_unread:
  assumes "cs \<le> 0"
  shows "identical_candidates cleanReasons (Some cs) (map (\<lambda>bill. bill\<lparr>score := None\<rparr>) bills)
       = identical_candidates cleanReasons (Some cs) bills"
  by (induction bills)
     (simp_all add: is_identical_not_positive [OF assms] split: sum.splits)

lemma identical_candidates_not_positive:
  assumes "cs \<le> 0" and "\<forall>bill\<in>set bills. reason bill \<noteq> None"
  shows "identical_candidates cleanReasons (Some cs) bills
       = Inr (map key_or_empty (filter (reason_by_spec cleanReasons) bills))"
  using assms(2)
  by (induction bills)
     (simp_all add: is_identical_not_positive [OF assms(1)] reason_is_identical_spec)

text \<open>
  Claim C2.  With a current score that is not positive the comprehension never raises
  \<^verbatim>\<open>ZeroDivisionError\<close> and never reads a score: it gives the same result when every
  score is removed (reading a removed score would raise \<^verbatim>\<open>TypeError\<close>), and, when every
  match has a reason, keeps exactly the matches whose reason list meets the vocabulary.
  The current score is \<open>0\<close> when the bill is not among its similar bills.
\<close>

theorem proximity_rule_guarded:
  assumes "currentScore \<le> 0"
  shows "identical_candidates cleanReasons (Some currentScore) bills \<noteq> Inl ZeroDivisionError
       \<and> identical_candidates cleanReasons (Some currentScore)
            (map (\<lambda>bill. bill\<lparr>score := None\<rparr>) bills)
          = identical_candidates cleanReasons (Some currentScore) bills
       \<and> ((\<forall>bill\<in>set bills. reason bill \<noteq> None) \<longrightarrow>
            identical_candidates cleanReasons (Some currentScore) bills
              = Inr (map key_or_empty (filter (reason_by_spec cleanReasons) bills)))
       \<and> (object_number obj \<notin> set (get_billnumbers_similar obj) \<longrightarrow>
            get_current_bill_score obj = Inr (Some 0))"
  using assms
  by (simp add: identical_candidates_no_division_error identical_candidates_score_unread
      identical_candidates_not_positive get_current_bill_score_def)

lemma example_matches_reasons:
  "map key_or_empty (filter (reason_by_spec (\<lambda>rs. rs)) example_matches) = [''116hr300'', []]"
  by (simp add: example_matches_def reason_by_spec_def reasons_intersect_def
      IDENTICAL_REASONS_def key_or_empty_def)

theorem proximity_rule_guarded_witness:
  "(0::real) \<le> 0
   \<and> list_all (\<lambda>bill. reason bill \<noteq> None) example_matches
   \<and> identical_candidates (\<lambda>rs. rs) (Some 0) example_matches = Inr [''116hr300'', []]
   \<and> identical_candidates (\<lambda>rs. rs) (Some 0)
        (map (\<lambda>bill. bill\<lparr>score := None\<rparr>) example_matches) = Inr [''116hr300'', []]"
proof -
  have le: "(0::real) \<le> 0"
    by simp
  have wf: "\<forall>bill\<in>set example_matches. reason bill \<noteq> None"
    by (simp add: example_matches_def del: not_None_eq)
  note inst = proximity_rule_guarded [OF le, of "\<lambda>rs. rs" example_matches "object example_view"]
  from inst wf have a: "identical_candidates (\<lambda>rs. rs) (Some 0) example_matches
      = Inr [''116hr300'', []]"
    by (simp add: example_matches_reasons)
  from inst a have "identical_candidates (\<lambda>rs. rs) (Some 0)
        (map (\<lambda>bill. bill\<lparr>score := None\<rparr>) example_matches) = Inr [''116hr300'', []]"
    by simp
  moreover from wf have "list_all (\<lambda>bill. reason bill \<noteq> None) example_matches"
    by (simp only: list_all_iff)
  ultimately show ?thesis
    using le a by (intro conjI)
qed

subsection \<open>The merged roster\<close>

lemma find_snoc:
  "find P (xs @ [x]) =
     (case find P xs of None \<Rightarrow> (if P x then Some x else None) | Some r \<Rightarrow> Some r)"
  by (induction xs) simp_all

lemma find_None_filter: "find P xs = None \<Longrightarrow> filter P xs = []"
  by (induction xs) (simp_all split: if_splits)

lemma first_occurrence_bctns:
  "(first_occurrence cm bctn r)\<lparr>bill_congress_type_numbers := bs\<rparr>
     = (first_occurrence cm bctn' r)\<lparr>bill_congress_type_numbers := bs\<rparr>"
  by (simp add: first_occurrence_def Let_def cosponsor_row.extend_def
      merged_cosponsor.fields_def)

lemma first_occurrence_single:
  "first_occurrence cm bctn r
     = (first_occurrence cm bctn r)\<lparr>bill_congress_type_numbers := [bctn]\<rparr>"
  by (simp add: first_occurrence_def Let_def cosponsor_row.extend_def
      merged_cosponsor.fields_def)

lemma bioguide_id_first_occurrence [simp]:
  "bioguide_id (first_occurrence cm bctn r) = bioguide_id r"
  by (simp add: first_occurrence_def Let_def cosponsor_row.extend_def)

lemma merge_loop_map_of:
  "map_of (fold (merge_step cm bd) rows []) b = merged_for cm bd rows b"
proof (induction rows rule: rev_induct)
  case Nil
  show ?case by (simp add: merged_for_def)
next
  case (snoc x xs)
  let ?acc = "fold (merge_step cm bd) xs []"
  show ?case
  proof (cases "bioguide_id x = b")
    case False
    then have "map_of (merge_step cm bd x ?acc) b = map_of ?acc b"
      by (simp add: merge_step_def Let_def update_conv' split: option.splits)
    with False snoc show ?thesis
      by (simp add: merged_for_def find_snoc split: option.splits)
  next
    case True
    show ?thesis
    proof (cases "find (\<lambda>r. bioguide_id r = b) xs")
      case None
      with snoc have "map_of ?acc b = None"
        by (simp add: merged_for_def)
      with True have "map_of (merge_step cm bd x ?acc) b
          = Some (first_occurrence cm (bctn_of bd x) x)"
        by (simp add: merge_step_def Let_def update_conv')
      moreover have "merged_for cm bd (xs @ [x]) b
          = Some ((first_occurrence cm (bctn_of bd x) x)
                    \<lparr>bill_congress_type_numbers := [bctn_of bd x]\<rparr>)"
        using None True by (simp add: merged_for_def find_snoc find_None_filter)
      ultimately show ?thesis
        using first_occurrence_single [of cm "bctn_of bd x" x] by simp
    next
      case (Some r)
      let ?e = "(first_occurrence cm (bctn_of bd r) r)
                  \<lparr>bill_congress_type_numbers :=
                     map (bctn_of bd) (filter (\<lambda>r'. bioguide_id r' = b) xs)\<rparr>"
      from snoc Some have acc: "map_of ?acc b = Some ?e"
        by (simp add: merged_for_def)
      with True have "map_of (merge_step cm bd x ?acc) b
          = Some (?e\<lparr>bill_congress_type_numbers :=
                      bill_congress_type_numbers ?e @ [bctn_of bd x]\<rparr>)"
        by (simp add: merge_step_def Let_def update_conv')
      with Some True show ?thesis
        by (simp add: merged_for_def find_snoc)
    qed
  qed
qed

lemma merge_loop_distinct:
  "distinct (map fst (fold (merge_step cm bd) rows []))"
proof (induction rows rule: rev_induct)
  case Nil
  show ?case by simp
next
  case (snoc x xs)
  then show ?case
    by (simp add: merge_step_def Let_def distinct_update split: option.splits)
qed

lemma merged_for_bioguide_id:
  "merged_for cm bd rows k = Some e \<Longrightarrow> bioguide_id e = k"
  by (auto simp: merged_for_def find_Some_iff split: option.splits)

lemma find_SomeD: "find P xs = Some x \<Longrightarrow> P x \<and> x \<in> set xs"
  by (induction xs) (auto split: if_splits)

lemma merged_for_None_iff:
  "merged_for cm bd rows b = None \<longleftrightarrow> b \<notin> bioguide_id ` set rows"
  by (auto simp: merged_for_def find_None_iff split: option.splits dest!: find_SomeD)

lemma merged_for_bctns:
  assumes "merged_for cm bd rows b = Some e"
  shows "bill_congress_type_numbers e
           = map (bctn_of bd) (filter (\<lambda>r. bioguide_id r = b) rows)"
proof -
  from assms obtain r where
    "e = (first_occurrence cm (bctn_of bd r) r)
           \<lparr>bill_congress_type_numbers :=
              map (bctn_of bd) (filter (\<lambda>r'. bioguide_id r' = b) rows)\<rparr>"
    by (auto simp: merged_for_def split: option.splits)
  then show ?thesis
    by simp
qed

lemma merge_loop_entry:
  "(k, e) \<in> set (fold (merge_step cm bd) rows []) \<longleftrightarrow> merged_for cm bd rows k = Some e"
  using map_of_eq_Some_iff [OF merge_loop_distinct, of cm bd rows k e]
  by (simp add: merge_loop_map_of)

lemma merge_loop_keys:
  "fst ` set (fold (merge_step cm bd) rows []) = bioguide_id ` set rows"
proof -
  have "dom (map_of (fold (merge_step cm bd) rows [])) = bioguide_id ` set rows"
    by (auto simp: merge_loop_map_of merged_for_None_iff dom_def)
  then show ?thesis
    by (simp add: dom_map_of_conv_image_fst)
qed

lemma distinct_keys_count:
  "distinct (map fst xs) \<Longrightarrow>
     length (filter (\<lambda>p. fst p = b) xs) = (if b \<in> fst ` set xs then 1 else 0)"
  by (induction xs) (auto simp: image_iff)

lemma merge_loop_count:
  "length (filter (\<lambda>e. bioguide_id e = b) (map snd (fold (merge_step cm bd) rows [])))
     = (if b \<in> bioguide_id ` set rows then 1 else 0)"
proof -
  let ?acc = "fold (merge_step cm bd) rows []"
  have "filter ((\<lambda>e. bioguide_id e = b) \<circ> snd) ?acc = filter (\<lambda>p. fst p = b) ?acc"
  proof (rule filter_cong [OF refl])
    fix p assume "p \<in> set ?acc"
    then have "merged_for cm bd rows (fst p) = Some (snd p)"
      using merge_loop_entry [of "fst p" "snd p" cm bd rows] by simp
    then have "bioguide_id (snd p) = fst p"
      by (rule merged_for_bioguide_id)
    then show "((\<lambda>e. bioguide_id e = b) \<circ> snd) p = (fst p = b)"
      by simp
  qed
  then have "length (filter (\<lambda>e. bioguide_id e = b) (map snd ?acc))
      = length (filter (\<lambda>p. fst p = b) ?acc)"
    by (simp add: filter_map)
  also have "\<dots> = (if b \<in> fst ` set ?acc then 1 else 0)"
    by (rule distinct_keys_count [OF merge_loop_distinct])
  finally show ?thesis
    by (simp add: merge_loop_keys)
qed

lemma merge_loop_member:
  assumes "e \<in> set (map snd (fold (merge_step cm bd) rows []))"
  shows "merged_for cm bd rows (bioguide_id e) = Some e"
proof -
  from assms obtain k where "(k, e) \<in> set (fold (merge_step cm bd) rows [])"
    by auto
  then have m: "merged_for cm bd rows k = Some e"
    by (simp add: merge_loop_entry)
  with merged_for_bioguide_id [OF m] show ?thesis
    by simp
qed

lemma get_cosponsors_for_same_bills_value:
  assumes "those (map (bill_pk db) (roster_billnumbers self)) = Some billids"
  shows "get_cosponsors_for_same_bills db self =
           Inr (map snd
                  (fold (merge_step (get_committees_map (object self))
                           (roster_bill_dict billids (roster_billnumbers self)))
                     (cosponsors_for_bills db billids) []))"
  using assms
  by (simp add: get_cosponsors_for_same_bills_def roster_bill_dict_def Let_def)

text \<open>
  Claim C3.  When every bill of the identical set is found in the database,
  \<^verbatim>\<open>get_cosponsors_for_same_bills\<close> returns a roster with exactly one entry for every
  \<^verbatim>\<open>bioguide_id\<close> among the fetched rows and none for any other, and the list
  \<^verbatim>\<open>bill_congress_type_numbers\<close> of an entry is as long as the number of fetched rows
  bearing its \<^verbatim>\<open>bioguide_id\<close>: two for a person who cosponsors two bills of the set.
\<close>

theorem roster_one_entry_per_person:
  assumes "those (map (bill_pk db) (roster_billnumbers self)) = Some billids"
  shows "\<exists>roster. get_cosponsors_for_same_bills db self = Inr roster
          \<and> (\<forall>b. length (filter (\<lambda>e. bioguide_id e = b) roster)
                  = (if b \<in> bioguide_id ` set (cosponsors_for_bills db billids) then 1 else 0))
          \<and> (\<forall>e\<in>set roster.
                length (bill_congress_type_numbers e)
                  = length (filter (\<lambda>r. bioguide_id r = bioguide_id e)
                              (cosponsors_for_bills db billids)))"
proof -
  let ?cm = "get_committees_map (object self)"
  let ?bd = "roster_bill_dict billids (roster_billnumbers self)"
  let ?rows = "cosponsors_for_bills db billids"
  let ?roster = "map snd (fold (merge_step ?cm ?bd) ?rows [])"
  have "\<forall>e\<in>set ?roster.
          length (bill_congress_type_numbers e)
            = length (filter (\<lambda>r. bioguide_id r = bioguide_id e) ?rows)"
  proof
    fix e assume "e \<in> set ?roster"
    then have "merged_for ?cm ?bd ?rows (bioguide_id e) = Some e"
      by (rule merge_loop_member)
    then show "length (bill_congress_type_numbers e)
            = length (filter (\<lambda>r. bioguide_id r = bioguide_id e) ?rows)"
      by (simp add: merged_for_bctns)
  qed
  with get_cosponsors_for_same_bills_value [OF assms] merge_loop_count [of _ ?cm ?bd ?rows]
  show ?thesis
    by simp
qed

text \<open>
  Claim C10.  Every entry of the roster comes from the first fetched row \<open>r\<close> with its
  \<^verbatim>\<open>bioguide_id\<close>: it is the entry made from \<open>r\<close> alone, except that
  \<^verbatim>\<open>bill_congress_type_numbers\<close> lists the bills of all rows with that identifier.  Its
  row fields (\<^verbatim>\<open>party\<close>, \<^verbatim>\<open>state\<close>, \<^verbatim>\<open>name_full_official\<close>, \<^verbatim>\<open>leadership\<close>, ...) are those
  of \<open>r\<close>, and \<^verbatim>\<open>committees_named\<close> and \<^verbatim>\<open>ranks\<close> are those computed from \<open>r\<close>.
\<close>

theorem roster_first_row_determines_entry:
  assumes "those (map (bill_pk db) (roster_billnumbers self)) = Some billids"
    and "committees_map = get_committees_map (object self)"
    and "bill_dict = roster_bill_dict billids (roster_billnumbers self)"
    and "rows = cosponsors_for_bills db billids"
  shows "\<exists>roster. get_cosponsors_for_same_bills db self = Inr roster
          \<and> (\<forall>e\<in>set roster. \<exists>r.
                find (\<lambda>r. bioguide_id r = bioguide_id e) rows = Some r
              \<and> e = (first_occurrence committees_map (bctn_of bill_dict r) r)
                      \<lparr>bill_congress_type_numbers :=
                         map (bctn_of bill_dict)
                           (filter (\<lambda>r'. bioguide_id r' = bioguide_id e) rows)\<rparr>
              \<and> cosponsor_row.truncate e = r
              \<and> committees_named e
                  = committees_named (first_occurrence committees_map (bctn_of bill_dict r) r)
              \<and> ranks e = ranks (first_occurrence committees_map (bctn_of bill_dict r) r))"
proof -
  let ?roster = "map snd (fold (merge_step committees_map bill_dict) rows [])"
  have "\<exists>r. find (\<lambda>r. bioguide_id r = bioguide_id e) rows = Some r
              \<and> e = (first_occurrence committees_map (bctn_of bill_dict r) r)
                      \<lparr>bill_congress_type_numbers :=
                         map (bctn_of bill_dict)
                           (filter (\<lambda>r'. bioguide_id r' = bioguide_id e) rows)\<rparr>
              \<and> cosponsor_row.truncate e = r
              \<and> committees_named e
                  = committees_named (first_occurrence committees_map (bctn_of bill_dict r) r)
              \<and> ranks e = ranks (first_occurrence committees_map (bctn_of bill_dict r) r)"
    if "e \<in> set ?roster" for e
  proof -
    from that have "merged_for committees_map bill_dict rows (bioguide_id e) = Some e"
      by (rule merge_loop_member)
    then obtain r where r: "find (\<lambda>r. bioguide_id r = bioguide_id e) rows = Some r"
      and e: "e = (first_occurrence committees_map (bctn_of bill_dict r) r)
                      \<lparr>bill_congress_type_numbers :=
                         map (bctn_of bill_dict)
                           (filter (\<lambda>r'. bioguide_id r' = bioguide_id e) rows)\<rparr>"
      by (auto simp: merged_for_def split: option.splits)
    have "cosponsor_row.truncate e = r"
      by (subst e)
         (simp add: first_occurrence_def Let_def cosponsor_row.extend_def
            cosponsor_row.truncate_def)
    moreover have "committees_named e
        = committees_named (first_occurrence committees_map (bctn_of bill_dict r) r)"
      by (subst e) simp
    moreover have "ranks e = ranks (first_occurrence committees_map (bctn_of bill_dict r) r)"
      by (subst e) simp
    ultimately show ?thesis
      using r e by blast
  qed
  with get_cosponsors_for_same_bills_value [OF assms(1)] assms(2-4) show ?thesis
    by simp
qed

lemma example_billids:
  "those (map (bill_pk example_db) (roster_billnumbers example_roster_view)) = Some [1, 2]"
  by (simp add: example_db_def roster_billnumbers_def example_roster_view_def)

lemma example_fetch: "cosponsors_for_bills example_db [1, 2] = example_rows"
  by (simp add: example_db_def example_rows_def)

lemma example_committees_map:
  "get_committees_map (object example_roster_view) = [(Some ''HSJU'', Some ''Judiciary'')]"
  by (simp add: get_committees_map_def get_committees_dict_deduped_def
      example_roster_view_def)

lemma example_roster_value:
  "get_cosponsors_for_same_bills example_db example_roster_view = Inr example_roster"
proof -
  have "get_cosponsors_for_same_bills example_db example_roster_view
      = Inr (map snd
               (fold (merge_step (get_committees_map (object example_roster_view))
                        (roster_bill_dict [1, 2] (roster_billnumbers example_roster_view)))
                  (cosponsors_for_bills example_db [1, 2]) []))"
    by (rule get_cosponsors_for_same_bills_value [OF example_billids])
  also have "\<dots> = Inr (map snd
               (fold (merge_step [(Some ''HSJU'', Some ''Judiciary'')]
                        (roster_bill_dict [1, 2] (roster_billnumbers example_roster_view)))
                  example_rows []))"
    by (simp only: example_fetch example_committees_map)
  also have "\<dots> = Inr example_roster"
    by (simp add: example_rows_def merge_step_def first_occurrence_def bctn_of_def Let_def
        roster_billnumbers_def roster_bill_dict_def example_roster_view_def
        example_roster_def cosponsor_row.extend_def merged_cosponsor.fields_def)
  finally show ?thesis .
qed

theorem roster_one_entry_per_person_witness:
  "those (map (bill_pk example_db) (roster_billnumbers example_roster_view)) = Some [1, 2]
   \<and> get_cosponsors_for_same_bills example_db example_roster_view = Inr example_roster
   \<and> length (filter (\<lambda>e. bioguide_id e = Some ''A000001'') example_roster) = 1
   \<and> length (bill_congress_type_numbers (hd example_roster)) = 2
   \<and> length (filter (\<lambda>r. bioguide_id r = Some ''A000001'') example_rows) = 2"
proof -
  from roster_one_entry_per_person [OF example_billids]
  obtain roster where r: "get_cosponsors_for_same_bills example_db example_roster_view = Inr roster"
    and one: "\<And>b. length (filter (\<lambda>e. bioguide_id e = b) roster)
                  = (if b \<in> bioguide_id ` set (cosponsors_for_bills example_db [1, 2])
                     then 1 else 0)"
    and len: "\<And>e. e \<in> set roster \<Longrightarrow>
                length (bill_congress_type_numbers e)
                  = length (filter (\<lambda>r. bioguide_id r = bioguide_id e)
                              (cosponsors_for_bills example_db [1, 2]))"
    by blast
  from r have roster: "roster = example_roster"
    by (simp add: example_roster_value)
  have rows: "cosponsors_for_bills example_db [1, 2] = example_rows"
    by (rule example_fetch)
  have "Some ''A000001'' \<in> bioguide_id ` set example_rows"
    by (simp add: example_rows_def)
  with one [of "Some ''A000001''"]
  have a: "length (filter (\<lambda>e. bioguide_id e = Some ''A000001'') example_roster) = 1"
    unfolding roster rows by simp
  have hd_in: "hd example_roster \<in> set example_roster"
    and hd_id: "bioguide_id (hd example_roster) = Some ''A000001''"
    by (simp_all add: example_roster_def)
  have two: "length (filter (\<lambda>r. bioguide_id r = Some ''A000001'') example_rows) = 2"
    by (simp add: example_rows_def)
  from len [of "hd example_roster"] hd_in
  have "length (bill_congress_type_numbers (hd example_roster))
      = length (filter (\<lambda>r. bioguide_id r = Some ''A000001'') example_rows)"
    unfolding roster rows hd_id by simp
  with two have b: "length (bill_congress_type_numbers (hd example_roster)) = 2"
    by simp
  from example_billids example_roster_value a b two show ?thesis
    by (intro conjI)
qed

theorem roster_first_row_determines_entry_witness:
  "those (map (bill_pk example_db) (roster_billnumbers example_roster_view)) = Some [1, 2]
   \<and> get_cosponsors_for_same_bills example_db example_roster_view = Inr example_roster
   \<and> find (\<lambda>r. bioguide_id r = bioguide_id (hd example_roster)) example_rows
       = Some (hd example_rows)
   \<and> cosponsor_row.truncate (hd example_roster) = hd example_rows
   \<and> committees_named (hd example_roster) = [Some ''Judiciary'']
   \<and> ranks (hd example_roster) = [PyInt 3]"
proof -
  from roster_first_row_determines_entry [OF example_billids refl refl refl]
  obtain roster where r: "get_cosponsors_for_same_bills example_db example_roster_view = Inr roster"
    and first: "\<And>e. e \<in> set roster \<Longrightarrow> \<exists>r.
                find (\<lambda>r. bioguide_id r = bioguide_id e) (cosponsors_for_bills example_db [1, 2])
                  = Some r
              \<and> cosponsor_row.truncate e = r"
    by blast
  from r have roster: "roster = example_roster"
    by (simp add: example_roster_value)
  have rows: "cosponsors_for_bills example_db [1, 2] = example_rows"
    by (rule example_fetch)
  have hd_in: "hd example_roster \<in> set example_roster"
    by (simp add: example_roster_def)
  have f: "find (\<lambda>r. bioguide_id r = bioguide_id (hd example_roster)) example_rows
       = Some (hd example_rows)"
    by (simp add: example_roster_def example_rows_def)
  from first [of "hd example_roster"] hd_in
  obtain r' where "find (\<lambda>r. bioguide_id r = bioguide_id (hd example_roster)) example_rows
                  = Some r'"
    and "cosponsor_row.truncate (hd example_roster) = r'"
    unfolding roster rows by blast
  with f have t: "cosponsor_row.truncate (hd example_roster) = hd example_rows"
    by simp
  have c: "committees_named (hd example_roster) = [Some ''Judiciary'']"
    and k: "ranks (hd example_roster) = [PyInt 3]"
    by (simp_all add: example_roster_def)
  from example_billids example_roster_value f t c k show ?thesis
    by (intro conjI)
qed

subsection \<open>The displayed order of cosponsors\<close>

lemma get_cosponsors_dict_value:
  "get_cosponsors_dict db obj =
     (case sorted_by_name (cosponsors_dict obj) of
        Inl e \<Rightarrow> Inl e
      | Inr sorted_cosponsors \<Rightarrow>
          Inr (display_order
                 (map (enrich db (committees_dict obj))
                    (with_sponsor_first ((sponsor obj)\<lparr>sponsor_flag := True\<rparr>)
                       sorted_cosponsors))))"
  by (simp add: get_cosponsors_dict_def display_order_def with_sponsor_first_def Let_def
      split: sum.splits)

lemma name_match_committees [simp]: "name (match_committees cds a c) = name c"
proof -
  have "name (fold (\<lambda>committee_dict c'.
             if assigned_committee a = committee_id committee_dict
             then c'\<lparr>rank := (case assigned_rank a of None \<Rightarrow> PyNone | Some v \<Rightarrow> v),
                     entry_committee_id := assigned_committee a,
                     committee_name := committee committee_dict\<rparr>
             else c') cds c) = name c"
    by (induction cds arbitrary: c) simp_all
  then show ?thesis
    by (simp add: match_committees_def)
qed

lemma name_fold_match [simp]:
  "name (fold (\<lambda>a c'. if Some b = bioguide a then match_committees cds a c' else c') as c)
     = name c"
  by (induction as arbitrary: c) simp_all

lemma name_enrich [simp]: "name (enrich db cds c) = name c"
  by (simp add: enrich_def split: option.splits)

lemma partition_mset:
  "mset (sort_key k (filter R xs)) + mset (filter (\<lambda>c. \<not> R c) xs) = mset xs"
  by (induction xs) simp_all

lemma display_order_mset: "mset (display_order cs) = mset cs"
proof -
  let ?rest = "drop 1 cs"
  have "mset (display_order cs)
      = mset (take 1 cs)
        + ((mset (sort_key int_rank (filter has_int_rank (filter original_cosponsor ?rest)))
            + mset (filter (\<lambda>c. \<not> has_int_rank c) (filter original_cosponsor ?rest)))
           + (mset (sort_key int_rank
                      (filter has_int_rank (filter (\<lambda>c. \<not> original_cosponsor c) ?rest)))
              + mset (filter (\<lambda>c. \<not> has_int_rank c)
                        (filter (\<lambda>c. \<not> original_cosponsor c) ?rest))))"
    by (simp add: display_order_def)
  also have "\<dots> = mset (take 1 cs)
        + (mset (filter original_cosponsor ?rest)
           + mset (filter (\<lambda>c. \<not> original_cosponsor c) ?rest))"
    by (simp only: partition_mset)
  also have "\<dots> = mset (take 1 cs) + mset ?rest"
    by simp
  also have "\<dots> = mset (take 1 cs @ drop 1 cs)"
    by (simp only: mset_append)
  also have "\<dots> = mset cs"
    by (simp only: append_take_drop_id)
  finally show ?thesis .
qed

lemma display_order_hd: "cs \<noteq> [] \<Longrightarrow> hd (display_order cs) = hd cs"
  by (cases cs) (simp_all add: display_order_def)

lemma display_order_nonempty: "cs \<noteq> [] \<Longrightarrow> display_order cs \<noteq> []"
  by (cases cs) (simp_all add: display_order_def)

lemma find_filter_conv:
  "find P xs = (case filter P xs of [] \<Rightarrow> None | x # _ \<Rightarrow> Some x)"
  by (induction xs) simp_all

lemma name_or_empty_eq:
  "n \<noteq> [] \<Longrightarrow> name_or_empty c = n \<longleftrightarrow> name c = Some n"
  by (auto simp: name_or_empty_def split: option.splits)

lemma with_sponsor_first_named:
  assumes "name sp = Some n" and "n \<noteq> []"
  shows "with_sponsor_first sp cs =
           (case find (\<lambda>c. name c = Some n) cs of
              None \<Rightarrow> sp # cs
            | Some s \<Rightarrow> s # remove1 s cs)"
proof -
  have n: "name_or_empty sp = n"
    using assms by (simp add: name_or_empty_def)
  have "filter (\<lambda>c. name_or_empty c = n) cs = filter (\<lambda>c. name c = Some n) cs"
    using assms(2) by (simp add: name_or_empty_eq)
  then show ?thesis
    using assms(2)
    by (simp add: with_sponsor_first_def n find_filter_conv split: list.splits)
qed

lemma sorted_by_name_Inr:
  "sorted_by_name cs = Inr sorted_cosponsors \<Longrightarrow> sorted_cosponsors = sort_key name_or_empty cs"
  by (simp add: sorted_by_name_def split: if_splits)

text \<open>
  Claim C8 (as amended).  When the sponsor has a non-empty name and
  \<^verbatim>\<open>get_cosponsors_dict\<close> returns, the result is not empty and its first entry bears the
  sponsor's name, whatever the ranks.  If a cosponsor bears that name, the first such
  cosponsor in name order is the first entry (after the enrichment from the database) and
  the result holds the enriched cosponsors and nothing else: the sponsor is not inserted.
  Otherwise the first entry is the enriched sponsor, flagged as sponsor, and the result
  holds it in addition to the enriched cosponsors.
\<close>

theorem sponsor_first_when_named:
  assumes "get_cosponsors_dict db obj = Inr result"
    and "name (sponsor obj) = Some n" and "n \<noteq> []"
  shows "result \<noteq> [] \<and> name (hd result) = Some n
       \<and> (case find (\<lambda>c. name c = Some n) (sort_key name_or_empty (cosponsors_dict obj)) of
            None \<Rightarrow>
              hd result = enrich db (committees_dict obj) ((sponsor obj)\<lparr>sponsor_flag := True\<rparr>)
              \<and> mset result
                  = image_mset (enrich db (committees_dict obj))
                      (add_mset ((sponsor obj)\<lparr>sponsor_flag := True\<rparr>)
                         (mset (cosponsors_dict obj)))
          | Some s \<Rightarrow>
              hd result = enrich db (committees_dict obj) s
              \<and> mset result
                  = image_mset (enrich db (committees_dict obj)) (mset (cosponsors_dict obj)))"
proof -
  let ?sp = "(sponsor obj)\<lparr>sponsor_flag := True\<rparr>"
  let ?sorted = "sort_key name_or_empty (cosponsors_dict obj)"
  let ?en = "enrich db (committees_dict obj)"
  from assms(1) obtain sorted_cosponsors
    where "sorted_by_name (cosponsors_dict obj) = Inr sorted_cosponsors"
      and "result = display_order (map ?en (with_sponsor_first ?sp sorted_cosponsors))"
    by (auto simp: get_cosponsors_dict_value split: sum.splits)
  then have result: "result = display_order (map ?en (with_sponsor_first ?sp ?sorted))"
    using sorted_by_name_Inr by blast
  have sp: "name ?sp = Some n"
    using assms(2) by simp
  note head = with_sponsor_first_named [OF sp assms(3), of ?sorted]
  show ?thesis
  proof (cases "find (\<lambda>c. name c = Some n) ?sorted")
    case None
    with head have w: "with_sponsor_first ?sp ?sorted = ?sp # ?sorted"
      by simp
    have "mset result = image_mset ?en (add_mset ?sp (mset (cosponsors_dict obj)))"
      by (simp add: result w display_order_mset)
    moreover have "hd result = ?en ?sp"
      by (simp add: result w display_order_hd)
    moreover have "result \<noteq> []"
      by (simp add: result w display_order_nonempty)
    ultimately show ?thesis
      using None sp by simp
  next
    case (Some s)
    with head have w: "with_sponsor_first ?sp ?sorted = s # remove1 s ?sorted"
      by simp
    from Some have s: "name s = Some n" and s_in: "s \<in> set ?sorted"
      using find_SomeD [of "\<lambda>c. name c = Some n" ?sorted s] by simp_all
    from s_in have "mset (s # remove1 s ?sorted) = mset (cosponsors_dict obj)"
      by simp
    then have "mset (map ?en (s # remove1 s ?sorted))
        = image_mset ?en (mset (cosponsors_dict obj))"
      by (metis mset_map)
    then have "mset result = image_mset ?en (mset (cosponsors_dict obj))"
      by (simp only: result w display_order_mset)
    moreover have "hd result = ?en s"
      by (simp add: result w display_order_hd)
    moreover have "result \<noteq> []"
      by (simp add: result w display_order_nonempty)
    ultimately show ?thesis
      using Some s by simp
  qed
qed

lemma enrich_adams [simp]: "enrich db cds adams_entry = adams_entry"
  by (simp add: enrich_def adams_entry_def)

lemma enrich_smith [simp]: "enrich db cds smith_entry = smith_entry"
  by (simp add: enrich_def smith_entry_def)

lemma named_sponsor_value:
  "get_cosponsors_dict example_db named_sponsor_object = Inr [smith_entry, adams_entry]"
proof -
  have s: "sorted_by_name (cosponsors_dict named_sponsor_object) = Inr [adams_entry, smith_entry]"
    by (simp add: sorted_by_name_def named_sponsor_object_def name_or_empty_def
        smith_entry_def adams_entry_def)
  have w: "with_sponsor_first ((sponsor named_sponsor_object)\<lparr>sponsor_flag := True\<rparr>)
             [adams_entry, smith_entry] = [smith_entry, adams_entry]"
    by (simp add: with_sponsor_first_def named_sponsor_object_def name_or_empty_def)
       (simp add: smith_entry_def adams_entry_def)
  have d: "display_order [smith_entry, adams_entry] = [smith_entry, adams_entry]"
    by (simp add: display_order_def)
  show ?thesis
    by (simp add: get_cosponsors_dict_value s w d)
qed

theorem sponsor_first_when_named_witness:
  "get_cosponsors_dict example_db named_sponsor_object = Inr [smith_entry, adams_entry]
   \<and> name (sponsor named_sponsor_object) = Some ''Smith''
   \<and> name (hd [smith_entry, adams_entry]) = Some ''Smith''
   \<and> rank smith_entry = PyInt 5 \<and> rank adams_entry = PyInt 1"
proof -
  have n: "name (sponsor named_sponsor_object) = Some ''Smith''"
    by (simp add: named_sponsor_object_def)
  have ne: "''Smith'' \<noteq> []"
    by simp
  from sponsor_first_when_named [OF named_sponsor_value n ne]
  have "name (hd [smith_entry, adams_entry]) = Some ''Smith''"
    by blast
  moreover have "rank smith_entry = PyInt 5" and "rank adams_entry = PyInt 1"
    by (simp_all add: smith_entry_def adams_entry_def)
  ultimately show ?thesis
    using named_sponsor_value n by (intro conjI)
qed

text \<open>
  Claim C8 as stated fails for a sponsor without a name: the test \<^verbatim>\<open>if sponsor_name:\<close>
  skips the insertion, and the result starts with the first cosponsor in name order.
\<close>

theorem sponsor_without_name_not_first:
  "name (sponsor nameless_sponsor_object) = None
   \<and> get_cosponsors_dict example_db nameless_sponsor_object = Inr [adams_entry]
   \<and> name adams_entry = Some ''Adams''"
proof -
  have s: "sorted_by_name (cosponsors_dict nameless_sponsor_object) = Inr [adams_entry]"
    by (simp add: sorted_by_name_def nameless_sponsor_object_def)
  have w: "with_sponsor_first ((sponsor nameless_sponsor_object)\<lparr>sponsor_flag := True\<rparr>)
             [adams_entry] = [adams_entry]"
    by (simp add: with_sponsor_first_def nameless_sponsor_object_def name_or_empty_def)
  have d: "display_order [adams_entry] = [adams_entry]"
    by (simp add: display_order_def)
  have "get_cosponsors_dict example_db nameless_sponsor_object = Inr [adams_entry]"
    by (simp add: get_cosponsors_dict_value s w d)
  moreover have "name (sponsor nameless_sponsor_object) = None"
    by (simp add: nameless_sponsor_object_def)
  moreover have "name adams_entry = Some ''Adams''"
    by (simp add: adams_entry_def)
  ultimately show ?thesis
    by (intro conjI)
qed

end
